theory Spec2Isabelle
  imports Complex_Main
begin

section \<open>Values, exceptions and responses\<close>

text \<open>
  The views of \<^verbatim>\<open>pretix/control/views/auth.py\<close> are modelled as functions from the
  request and the mutable state they touch (session, request user, flash messages,
  database, cooldown store, outbox) to an outcome and the state they leave behind. An
  outcome is the response returned or the exception raised; the state is returned in
  both cases, since a Python exception does not undo what was written before it.
\<close>

datatype pyval = PInt int | PStr string | PBool bool

datatype exn =
    PermissionDenied string
  | ValueError
  | KeyError string
  | AttributeError
  | DoesNotExist
  | MultipleObjectsReturned
  | SendMailException
  | StorageError

datatype response =
    Redirect string
  | Render string
  | OptionsResponse
  | MethodNotAllowed

type_synonym outcome = "exn + response"

datatype level = MsgError | MsgSuccess

type_synonym message = "level \<times> string"

section \<open>Strings and numbers as Python converts them\<close>

text \<open>
  \<^verbatim>\<open>str(n)\<close> for an integer, \<^verbatim>\<open>int(s)\<close> for a string, \<^verbatim>\<open>int(x)\<close> for a float,
  \<^verbatim>\<open>s.strip()\<close>, \<^verbatim>\<open>s.replace(' ', '')\<close> and \<^verbatim>\<open>s.startswith(p)\<close>. Characters are
  bytes here, so whitespace and digits are the ASCII ones; \<^verbatim>\<open>int(s)\<close> reads an optional
  sign and decimal digits between optional whitespace and raises ValueError otherwise.
  The clock \<^verbatim>\<open>time.time()\<close> is a real number of seconds since the epoch.
\<close>

definition digit_char :: "nat \<Rightarrow> char" where
  "digit_char d = char_of (48 + d)"

function str_nat :: "nat \<Rightarrow> string" where
  "str_nat n = (if n < 10 then [digit_char n] else str_nat (n div 10) @ [digit_char (n mod 10)])"
  by pat_completeness auto
termination
  by (relation "measure id") auto

declare str_nat.simps [simp del]

definition str_int :: "int \<Rightarrow> string" where
  "str_int i = (if i < 0 then CHR ''-'' # str_nat (nat (- i)) else str_nat (nat i))"

definition is_digit :: "char \<Rightarrow> bool" where
  "is_digit ch = (48 \<le> (of_char ch :: nat) \<and> (of_char ch :: nat) \<le> 57)"

fun digits_value :: "nat \<Rightarrow> string \<Rightarrow> nat" where
  "digits_value acc [] = acc"
| "digits_value acc (ch # cs) = digits_value (10 * acc + (of_char ch - 48)) cs"

definition is_space :: "char \<Rightarrow> bool" where
  "is_space ch = ((9 \<le> (of_char ch :: nat) \<and> (of_char ch :: nat) \<le> 13)
                  \<or> (28 \<le> (of_char ch :: nat) \<and> (of_char ch :: nat) \<le> 32))"

definition strip :: "string \<Rightarrow> string" where
  "strip s = rev (dropWhile is_space (rev (dropWhile is_space s)))"

definition remove_spaces :: "string \<Rightarrow> string" where
  "remove_spaces s = filter (\<lambda>ch. ch \<noteq> CHR '' '') s"

definition dquote :: string where
  "dquote = [CHR 0x22]"

definition startswith :: "string \<Rightarrow> string \<Rightarrow> bool" where
  "startswith s p = (take (length p) s = p)"

definition int_of_str :: "string \<Rightarrow> exn + int" where
  "int_of_str s =
     (let t = strip s;
          neg = (case t of [] \<Rightarrow> False | ch # _ \<Rightarrow> ch = CHR ''-'');
          ds = (case t of [] \<Rightarrow> []
                | ch # r \<Rightarrow> if ch = CHR ''-'' \<or> ch = CHR ''+'' then r else t)
      in if ds \<noteq> [] \<and> list_all is_digit ds
         then Inr (if neg then - int (digits_value 0 ds) else int (digits_value 0 ds))
         else Inl ValueError)"

definition py_int :: "pyval \<Rightarrow> exn + int" where
  "py_int v = (case v of
       PInt i \<Rightarrow> Inr i
     | PBool b \<Rightarrow> Inr (if b then 1 else 0)
     | PStr s \<Rightarrow> int_of_str s)"

definition int_of_float :: "real \<Rightarrow> int" where
  "int_of_float x = (if 0 \<le> x then \<lfloor>x\<rfloor> else \<lceil>x\<rceil>)"

section \<open>Stored data\<close>

record user =
  pk :: int
  email :: string
  password :: string
  is_active :: bool
  require_2fa :: bool
  user_locale :: string
  user_timezone :: string

record team =
  team_pk :: int
  team_name :: string

record team_invite =
  inv_pk :: int
  inv_team :: team
  inv_email :: string
  inv_token :: string

record u2f_device =
  dev_user :: int
  dev_confirmed :: bool
  dev_json_data :: string

datatype log_object = OnUser int | OnTeam int

record log_entry =
  log_object :: log_object
  log_action_type :: string
  log_user :: "int option"
  log_data :: "(string \<times> pyval) list"

record database =
  users :: "user list"
  user_seq :: int
  team_members :: "(int \<times> int) list"
  invites :: "team_invite list"
  logs :: "log_entry list"
  u2f_devices :: "u2f_device list"

record mail_message =
  mail_to :: string
  mail_subject :: string
  mail_template :: string
  mail_url :: string
  mail_locale :: string

type_synonym session = "string \<rightharpoonup> pyval"

record state =
  session :: session
  request_user :: "user option"
  messages :: "message list"
  db :: database
  redis :: "string \<rightharpoonup> (string \<times> real)"
  outbox :: "mail_message list"

datatype http_method = GET | POST | HEAD | OPTIONS | OtherMethod

record request =
  req_method :: http_method
  GET_params :: "string \<rightharpoonup> string"
  POST_params :: "string \<rightharpoonup> string"
  LANGUAGE_CODE :: string
  req_timezone :: "string option"
  is_secure :: bool
  get_host :: string

section \<open>Settings and collaborators\<close>

text \<open>
  The settings the module reads and the functions it imports from the framework, the
  form classes, the token generator, the mail service and the second-factor libraries.
  They are parameters of the model: nothing is assumed about them beyond their types. A
  form is its validation result: \<open>None\<close> when \<^verbatim>\<open>is_valid()\<close> is false, the cleaned
  data otherwise (for the login form the cached user and the \<^verbatim>\<open>keep_logged_in\<close> box).
  \<open>auth_login\<close> is what the framework's login does to the session; that it also sets
  \<^verbatim>\<open>request.user\<close> is written out in \<open>do_auth_login\<close>. \<open>verify_authenticate\<close> is
  true when the hardware library returns and false when it raises; \<open>match_token\<close> is
  the truth value of what the one-time-code matcher returns; \<open>mail_transport_ok\<close> is
  false when sending raises \<^verbatim>\<open>SendMailException\<close>.
\<close>

record registration_data =
  reg_email :: string
  reg_password :: string
  reg_keep_logged_in :: bool

datatype tx_step = TxMembersAdd | TxLogAction | TxInviteDelete

record env =
  PRETIX_REGISTRATION :: bool
  PRETIX_PASSWORD_RESET :: bool
  PRETIX_LONG_SESSIONS :: bool
  HAS_REDIS :: bool
  TIME_ZONE :: string
  reverse :: "string \<Rightarrow> string"
  build_absolute_uri :: "string \<Rightarrow> string"
  quote :: "string \<Rightarrow> string"
  is_safe_url :: "string \<Rightarrow> bool"
  auth_login :: "session \<Rightarrow> user \<Rightarrow> session"
  auth_logout :: "session \<Rightarrow> session"
  authenticate :: "string \<Rightarrow> string \<Rightarrow> database \<Rightarrow> user option"
  LoginForm :: "(string \<rightharpoonup> string) \<Rightarrow> database \<Rightarrow> (user option \<times> bool) option"
  RegistrationForm :: "(string \<rightharpoonup> string) \<Rightarrow> database \<Rightarrow> registration_data option"
  PasswordForgotForm :: "(string \<rightharpoonup> string) \<Rightarrow> database \<Rightarrow> user option"
  PasswordRecoverForm :: "(string \<rightharpoonup> string) \<Rightarrow> string option \<Rightarrow> database \<Rightarrow> string option"
  make_token :: "user \<Rightarrow> string"
  check_token :: "user \<Rightarrow> string option \<Rightarrow> bool"
  match_token :: "user \<Rightarrow> string \<Rightarrow> bool"
  verify_authenticate :: "string list \<Rightarrow> pyval \<Rightarrow> string \<Rightarrow> string list \<Rightarrow> bool"
  start_authenticate :: "string list \<Rightarrow> string \<Rightarrow> string"
  mail_transport_ok :: "mail_message \<Rightarrow> bool"
  tx_fault :: "tx_step \<Rightarrow> bool"

section \<open>Storage operations\<close>

text \<open>
  Modelled from the spec: the model classes \<^verbatim>\<open>User\<close>, \<^verbatim>\<open>TeamInvite\<close> and
  \<^verbatim>\<open>U2FDevice\<close> of \<^verbatim>\<open>pretix.base.models\<close> are not part of the source at hand. The
  spec lists the storage interface the views consume (get a user by id, create a user,
  set a password, append to the audit log, get an invite by token, delete an invite, add
  a team member, get a user's confirmed devices); each is a table operation here. A
  lookup with \<^verbatim>\<open>objects.get\<close> raises \<^verbatim>\<open>DoesNotExist\<close> on no row and
  \<^verbatim>\<open>MultipleObjectsReturned\<close> on several.
\<close>

definition objects_get :: "'a list \<Rightarrow> exn + 'a" where
  "objects_get rows = (case rows of
       [] \<Rightarrow> Inl DoesNotExist
     | [r] \<Rightarrow> Inr r
     | _ \<Rightarrow> Inl MultipleObjectsReturned)"

definition create_user :: "string \<Rightarrow> string \<Rightarrow> string \<Rightarrow> string \<Rightarrow> database \<Rightarrow> user \<times> database" where
  "create_user e p loc tz d =
     (let u = \<lparr>pk = user_seq d, email = e, password = p, is_active = True,
                require_2fa = False, user_locale = loc, user_timezone = tz\<rparr>
      in (u, d\<lparr>users := users d @ [u], user_seq := user_seq d + 1\<rparr>))"

definition save_user :: "user \<Rightarrow> database \<Rightarrow> database" where
  "save_user u d = d\<lparr>users := map (\<lambda>x. if pk x = pk u then u else x) (users d)\<rparr>"

definition log_action ::
  "log_object \<Rightarrow> string \<Rightarrow> int option \<Rightarrow> (string \<times> pyval) list \<Rightarrow> database \<Rightarrow> database" where
  "log_action obj action u data d =
     d\<lparr>logs := logs d @ [\<lparr>log_object = obj, log_action_type = action,
                            log_user = u, log_data = data\<rparr>]\<rparr>"

definition members_exists :: "int \<Rightarrow> int \<Rightarrow> database \<Rightarrow> bool" where
  "members_exists t u d = ((t, u) \<in> set (team_members d))"

definition members_add :: "int \<Rightarrow> int \<Rightarrow> database \<Rightarrow> database" where
  "members_add t u d =
     (if (t, u) \<in> set (team_members d) then d
      else d\<lparr>team_members := team_members d @ [(t, u)]\<rparr>)"

definition invite_delete :: "team_invite \<Rightarrow> database \<Rightarrow> database" where
  "invite_delete iv d = d\<lparr>invites := filter (\<lambda>i. inv_pk i \<noteq> inv_pk iv) (invites d)\<rparr>"

definition confirmed_devices :: "user \<Rightarrow> database \<Rightarrow> string list" where
  "confirmed_devices u d =
     map dev_json_data (filter (\<lambda>dv. dev_confirmed dv \<and> dev_user dv = pk u) (u2f_devices d))"

text \<open>
  \<^verbatim>\<open>with transaction.atomic():\<close> runs its body and, when the body raises, restores the
  database to what it was on entry and lets the exception through; outside such a block
  every statement is committed as it runs. A statement of the body fails when the
  storage fails under it (\<open>tx_fault\<close>); it then has no effect of its own, and the
  statements before it have had theirs. Storage failures are modelled inside the
  transaction, where the code draws a boundary against them; elsewhere the storage
  answers.
\<close>

definition tx_run :: "env \<Rightarrow> tx_step \<Rightarrow> (database \<Rightarrow> database) \<Rightarrow> state \<Rightarrow> exn option \<times> state" where
  "tx_run c s f st =
     (if tx_fault c s then (Some StorageError, st) else (None, st\<lparr>db := f (db st)\<rparr>))"

definition atomic :: "(state \<Rightarrow> exn option \<times> state) \<Rightarrow> state \<Rightarrow> exn option \<times> state" where
  "atomic body st = (case body st of
       (Some e, st') \<Rightarrow> (Some e, st'\<lparr>db := db st\<rparr>)
     | (None, st') \<Rightarrow> (None, st'))"

section \<open>Session and message helpers\<close>

definition add_message :: "level \<Rightarrow> string \<Rightarrow> state \<Rightarrow> state" where
  "add_message l m st = st\<lparr>messages := messages st @ [(l, m)]\<rparr>"

definition session_set :: "string \<Rightarrow> pyval \<Rightarrow> state \<Rightarrow> state" where
  "session_set k v st = st\<lparr>session := (session st)(k \<mapsto> v)\<rparr>"

definition session_del :: "string \<Rightarrow> state \<Rightarrow> exn + state" where
  "session_del k st = (case session st k of
       None \<Rightarrow> Inl (KeyError k)
     | Some _ \<Rightarrow> Inr (st\<lparr>session := (session st)(k := None)\<rparr>))"

definition do_auth_login :: "env \<Rightarrow> user \<Rightarrow> state \<Rightarrow> state" where
  "do_auth_login c u st = st\<lparr>session := auth_login c (session st) u, request_user := Some u\<rparr>"

definition long_session :: "env \<Rightarrow> bool \<Rightarrow> pyval" where
  "long_session c keep = PBool (PRETIX_LONG_SESSIONS c \<and> keep)"

definition next_or_index :: "env \<Rightarrow> request \<Rightarrow> string" where
  "next_or_index c req = (case GET_params req ''next'' of
       Some n \<Rightarrow> if is_safe_url c n then n else reverse c ''control:index''
     | None \<Rightarrow> reverse c ''control:index'')"

definition get_or_index :: "request \<Rightarrow> string" where
  "get_or_index req = (case GET_params req ''next'' of Some n \<Rightarrow> n | None \<Rightarrow> ''control:index'')"

section \<open>Login, logout and registration\<close>

definition login :: "env \<Rightarrow> real \<Rightarrow> request \<Rightarrow> state \<Rightarrow> outcome \<times> state" where
  "login c now req st =
     (if request_user st \<noteq> None then (Inr (Redirect (get_or_index req)), st)
      else if req_method req = POST then
        (case LoginForm c (POST_params req) (db st) of
           Some (Some u, keep) \<Rightarrow>
             (let st1 = session_set ''pretix_auth_long_session'' (long_session c keep) st
              in if require_2fa u then
                   (let st2 = session_set ''pretix_auth_2fa_user'' (PInt (pk u)) st1;
                        st3 = session_set ''pretix_auth_2fa_time''
                                (PStr (str_int (int_of_float now))) st2;
                        twofa_url = reverse c ''control:auth.login.2fa'' @
                          (case GET_params req ''next'' of
                             Some n \<Rightarrow> ''?next='' @ quote c n
                           | None \<Rightarrow> [])
                    in (Inr (Redirect twofa_url), st3))
                 else
                   (let st2 = do_auth_login c u st1;
                        st3 = session_set ''pretix_auth_login_time''
                                (PInt (int_of_float now)) st2
                    in (Inr (Redirect (next_or_index c req)), st3)))
         | _ \<Rightarrow> (Inr (Render ''pretixcontrol/auth/login.html''), st))
      else (Inr (Render ''pretixcontrol/auth/login.html''), st))"

definition logout :: "env \<Rightarrow> request \<Rightarrow> state \<Rightarrow> outcome \<times> state" where
  "logout c req st =
     (Inr (Redirect ''control:auth.login''),
      session_set ''pretix_auth_login_time'' (PInt 0)
        (st\<lparr>session := auth_logout c (session st), request_user := None\<rparr>))"

text \<open>
  Lines 90 to 101 of \<^verbatim>\<open>register\<close> and lines 144 to 155 of \<^verbatim>\<open>invite\<close> are the same
  statements: create the user, authenticate it, log its creation, log it in and write
  the two session entries. \<^verbatim>\<open>authenticate\<close> returning \<^verbatim>\<open>None\<close> makes the next line fail
  with an AttributeError.
\<close>

definition create_and_login ::
  "env \<Rightarrow> real \<Rightarrow> request \<Rightarrow> registration_data \<Rightarrow> state \<Rightarrow> (exn + user) \<times> state" where
  "create_and_login c now req r st =
     (let (u0, d1) = create_user (reg_email r) (reg_password r) (LANGUAGE_CODE req)
                       (case req_timezone req of Some z \<Rightarrow> z | None \<Rightarrow> TIME_ZONE c) (db st);
          st1 = st\<lparr>db := d1\<rparr>
      in case authenticate c (email u0) (reg_password r) d1 of
           None \<Rightarrow> (Inl AttributeError, st1)
         | Some u \<Rightarrow>
             (let st2 = st1\<lparr>db := log_action (OnUser (pk u)) ''pretix.control.auth.user.created''
                                     (Some (pk u)) [] (db st1)\<rparr>;
                  st3 = do_auth_login c u st2;
                  st4 = session_set ''pretix_auth_login_time'' (PInt (int_of_float now)) st3;
                  st5 = session_set ''pretix_auth_long_session''
                          (long_session c (reg_keep_logged_in r)) st4
              in (Inr u, st5)))"

definition register :: "env \<Rightarrow> real \<Rightarrow> request \<Rightarrow> state \<Rightarrow> outcome \<times> state" where
  "register c now req st =
     (if \<not> PRETIX_REGISTRATION c then (Inl (PermissionDenied ''Registration is disabled''), st)
      else if request_user st \<noteq> None then (Inr (Redirect (get_or_index req)), st)
      else if req_method req = POST then
        (case RegistrationForm c (POST_params req) (db st) of
           Some r \<Rightarrow>
             (case create_and_login c now req r st of
                (Inl e, st') \<Rightarrow> (Inl e, st')
              | (Inr u, st') \<Rightarrow> (Inr (Redirect ''control:index''), st'))
         | None \<Rightarrow> (Inr (Render ''pretixcontrol/auth/register.html''), st))
      else (Inr (Render ''pretixcontrol/auth/register.html''), st))"

section \<open>Invite acceptance\<close>

definition TeamInvite_objects_get :: "string \<Rightarrow> database \<Rightarrow> exn + team_invite" where
  "TeamInvite_objects_get tok d = objects_get (filter (\<lambda>i. inv_token i = tok) (invites d))"

text \<open>
  The body of the two \<^verbatim>\<open>with transaction.atomic()\<close> blocks (lines 129 to 137 and 158 to
  166): add the member, log the join, delete the invite. \<open>member\<close> is
  \<^verbatim>\<open>request.user\<close>; \<open>u\<close> is the user whose email and key go into the log data.
\<close>

definition join_team :: "env \<Rightarrow> team_invite \<Rightarrow> user \<Rightarrow> user \<Rightarrow> state \<Rightarrow> exn option \<times> state" where
  "join_team c iv member u st =
     (case tx_run c TxMembersAdd (members_add (team_pk (inv_team iv)) (pk member)) st of
        (Some e, st1) \<Rightarrow> (Some e, st1)
      | (None, st1) \<Rightarrow>
          (case tx_run c TxLogAction
                  (log_action (OnTeam (team_pk (inv_team iv))) ''pretix.team.member.joined'' None
                     [(''email'', PStr (email u)), (''invite_email'', PStr (inv_email iv)),
                      (''user'', PInt (pk u))]) st1 of
             (Some e, st2) \<Rightarrow> (Some e, st2)
           | (None, st2) \<Rightarrow> tx_run c TxInviteDelete (invite_delete iv) st2))"

definition invite :: "env \<Rightarrow> real \<Rightarrow> request \<Rightarrow> string \<Rightarrow> state \<Rightarrow> outcome \<times> state" where
  "invite c now req tok st =
     (case TeamInvite_objects_get tok (db st) of
        Inl e \<Rightarrow>
          if e = DoesNotExist then
            (Inr (Redirect ''control:auth.login''),
             add_message MsgError (''You used an invalid link. Please copy the link from your email to the address bar '' @
                                   ''and make sure it is correct and that the link has not been used before.'') st)
          else (Inl e, st)
      | Inr iv \<Rightarrow>
          (case request_user st of
             Some ru \<Rightarrow>
               if members_exists (team_pk (inv_team iv)) (pk ru) (db st) then
                 (Inr (Redirect ''control:index''),
                  add_message MsgError (''You cannot accept the invitation for '' @ dquote @ team_name (inv_team iv) @
                                        dquote @ '' as you already are part of this team.'') st)
               else
                 (case atomic (join_team c iv ru ru) st of
                    (Some e, st') \<Rightarrow> (Inl e, st')
                  | (None, st') \<Rightarrow>
                      (Inr (Redirect ''control:index''),
                       add_message MsgSuccess (''You are now part of the team '' @ dquote @ team_name (inv_team iv) @ dquote @ ''.'') st'))
           | None \<Rightarrow>
               if req_method req = POST then
                 (case RegistrationForm c (POST_params req) (db st) of
                    Some r \<Rightarrow>
                      (case create_and_login c now req r st of
                         (Inl e, st1) \<Rightarrow> (Inl e, st1)
                       | (Inr u, st1) \<Rightarrow>
                           (case atomic (join_team c iv u u) st1 of
                              (Some e, st') \<Rightarrow> (Inl e, st')
                            | (None, st') \<Rightarrow>
                                (Inr (Redirect ''control:index''),
                                 add_message MsgSuccess (''Welcome to pretix! You are now part of the team '' @ dquote @
                                                         team_name (inv_team iv) @ dquote @ ''.'') st')))
                  | None \<Rightarrow> (Inr (Render ''pretixcontrol/auth/invite.html''), st))
               else (Inr (Render ''pretixcontrol/auth/invite.html''), st)))"

section \<open>Password reset: request\<close>

text \<open>
  The cooldown store maps a key to its value and the instant it expires at;
  \<^verbatim>\<open>exists\<close> sees a key until then, \<^verbatim>\<open>setex\<close> stores it for the given number of
  seconds. \<open>now\<close> is the store's clock when the request runs.
\<close>

definition rc_exists :: "real \<Rightarrow> string \<Rightarrow> (string \<rightharpoonup> (string \<times> real)) \<Rightarrow> bool" where
  "rc_exists now k r = (case r k of None \<Rightarrow> False | Some (v, expires) \<Rightarrow> now < expires)"

definition rc_setex ::
  "real \<Rightarrow> string \<Rightarrow> real \<Rightarrow> string \<Rightarrow> (string \<rightharpoonup> (string \<times> real)) \<Rightarrow> (string \<rightharpoonup> (string \<times> real))" where
  "rc_setex now k ttl v r = r(k \<mapsto> (v, now + ttl))"

definition pwreset_key :: "user \<Rightarrow> string" where
  "pwreset_key u = ''pretix_pwreset_'' @ str_int (pk u)"

definition forgot_mail :: "env \<Rightarrow> user \<Rightarrow> mail_message" where
  "forgot_mail c u =
     \<lparr>mail_to = email u, mail_subject = ''Password recovery'',
      mail_template = ''pretixcontrol/email/forgot.txt'',
      mail_url = build_absolute_uri c ''control:auth.forgot.recover'' @
                 ''?id='' @ str_int (pk u) @ ''&token='' @ make_token c u,
      mail_locale = user_locale u\<rparr>"

definition Forgot_get :: "request \<Rightarrow> state \<Rightarrow> outcome \<times> state" where
  "Forgot_get req st =
     (if request_user st \<noteq> None then (Inr (Redirect (get_or_index req)), st)
      else (Inr (Render ''pretixcontrol/auth/forgot.html''), st))"

text \<open>Lines 202 to 218 of \<^verbatim>\<open>Forgot.post\<close>: send the mail, then log and confirm.\<close>

definition Forgot_send :: "env \<Rightarrow> request \<Rightarrow> user \<Rightarrow> state \<Rightarrow> outcome \<times> state" where
  "Forgot_send c req u st =
     (if mail_transport_ok c (forgot_mail c u) then
        (let st1 = st\<lparr>outbox := outbox st @ [forgot_mail c u]\<rparr>;
             st2 = st1\<lparr>db := log_action (OnUser (pk u))
                                 ''pretix.control.auth.user.forgot_password.mail_sent'' None []
                                 (db st1)\<rparr>
         in (Inr (Redirect ''control:auth.forgot''),
             add_message MsgSuccess ''We sent you an e-mail containing further instructions.'' st2))
      else
        Forgot_get req
          (add_message MsgError ''There was an error sending the mail. Please try again later.'' st))"

definition Forgot_post :: "env \<Rightarrow> real \<Rightarrow> request \<Rightarrow> state \<Rightarrow> outcome \<times> state" where
  "Forgot_post c now req st =
     (case PasswordForgotForm c (POST_params req) (db st) of
        Some u \<Rightarrow>
          if HAS_REDIS c then
            if rc_exists now (pwreset_key u) (redis st) then
              (let st1 = st\<lparr>db := log_action (OnUser (pk u))
                   ''pretix.control.auth.user.forgot_password.denied.repeated'' None [] (db st)\<rparr>
               in (Inr (Redirect ''control:auth.forgot''),
                   add_message MsgError ''We already sent you an email in the last 24 hours.'' st1))
            else
              Forgot_send c req u
                (st\<lparr>redis := rc_setex now (pwreset_key u) (3600 * 24) ''1'' (redis st)\<rparr>)
          else Forgot_send c req u st
      | None \<Rightarrow> Forgot_get req st)"

definition Forgot_dispatch :: "env \<Rightarrow> real \<Rightarrow> request \<Rightarrow> state \<Rightarrow> outcome \<times> state" where
  "Forgot_dispatch c now req st =
     (if \<not> PRETIX_PASSWORD_RESET c then (Inl (PermissionDenied ''Password reset is disabled''), st)
      else case req_method req of
             GET \<Rightarrow> Forgot_get req st
           | HEAD \<Rightarrow> Forgot_get req st
           | POST \<Rightarrow> Forgot_post c now req st
           | OPTIONS \<Rightarrow> (Inr OptionsResponse, st)
           | OtherMethod \<Rightarrow> (Inr MethodNotAllowed, st))"

section \<open>Password reset: confirmation\<close>

definition error_messages :: "string \<rightharpoonup> string" where
  "error_messages =
     [''invalid'' \<mapsto> ''You clicked on an invalid link. Please check that you copied the full '' @
                      ''web address into your address bar. Please note that the link is only valid '' @
                      ''for three days and that the link can only be used once.'',
      ''unknownuser'' \<mapsto> ''We were unable to find the user you requested a new password for.'']"

definition Recover_invalid :: "string \<Rightarrow> state \<Rightarrow> outcome \<times> state" where
  "Recover_invalid msg st = (case error_messages msg of
       None \<Rightarrow> (Inl (KeyError msg), st)
     | Some text \<Rightarrow> (Inr (Redirect ''control:auth.forgot''), add_message MsgError text st))"

text \<open>
  \<^verbatim>\<open>User.objects.get(id=request.GET.get('id'))\<close>: a missing parameter is \<^verbatim>\<open>None\<close> and
  matches no row; a parameter that is no number raises ValueError.
\<close>

definition User_get_by_id :: "string option \<Rightarrow> database \<Rightarrow> exn + user" where
  "User_get_by_id p d = (case p of
       None \<Rightarrow> Inl DoesNotExist
     | Some s \<Rightarrow> (case int_of_str s of
          Inl e \<Rightarrow> Inl e
        | Inr k \<Rightarrow> objects_get (filter (\<lambda>u. pk u = k) (users d))))"

definition Recover_get :: "env \<Rightarrow> request \<Rightarrow> state \<Rightarrow> outcome \<times> state" where
  "Recover_get c req st =
     (if request_user st \<noteq> None then (Inr (Redirect (get_or_index req)), st)
      else case User_get_by_id (GET_params req ''id'') (db st) of
             Inl e \<Rightarrow> if e = DoesNotExist then Recover_invalid ''unknownuser'' st else (Inl e, st)
           | Inr u \<Rightarrow>
               if \<not> check_token c u (GET_params req ''token'') then Recover_invalid ''invalid'' st
               else (Inr (Render ''pretixcontrol/auth/recover.html''), st))"

definition Recover_post :: "env \<Rightarrow> request \<Rightarrow> state \<Rightarrow> outcome \<times> state" where
  "Recover_post c req st =
     (case PasswordRecoverForm c (POST_params req) (GET_params req ''id'') (db st) of
        Some pw \<Rightarrow>
          (case User_get_by_id (GET_params req ''id'') (db st) of
             Inl e \<Rightarrow> if e = DoesNotExist then Recover_invalid ''unknownuser'' st else (Inl e, st)
           | Inr u \<Rightarrow>
               if \<not> check_token c u (GET_params req ''token'') then Recover_invalid ''invalid'' st
               else
                 (let st1 = st\<lparr>db := save_user (u\<lparr>password := pw\<rparr>) (db st)\<rparr>;
                      st2 = add_message MsgSuccess ''You can now login using your new password.'' st1;
                      st3 = st2\<lparr>db := log_action (OnUser (pk u))
                                          ''pretix.control.auth.user.forgot_password.recovered'' None []
                                          (db st2)\<rparr>
                  in (Inr (Redirect ''control:auth.login''), st3)))
      | None \<Rightarrow> Recover_get c req st)"

definition Recover_dispatch :: "env \<Rightarrow> request \<Rightarrow> state \<Rightarrow> outcome \<times> state" where
  "Recover_dispatch c req st =
     (if \<not> PRETIX_PASSWORD_RESET c then (Inl (PermissionDenied ''Password reset is disabled''), st)
      else case req_method req of
             GET \<Rightarrow> Recover_get c req st
           | HEAD \<Rightarrow> Recover_get c req st
           | POST \<Rightarrow> Recover_post c req st
           | OPTIONS \<Rightarrow> (Inr OptionsResponse, st)
           | OtherMethod \<Rightarrow> (Inr MethodNotAllowed, st))"

section \<open>The second-factor view\<close>

definition get_u2f_appid :: "request \<Rightarrow> string" where
  "get_u2f_appid req = (if is_secure req then ''https'' else ''http'') @ ''://'' @ get_host req"

text \<open>
  \<^verbatim>\<open>get_context_data\<close>: with confirmed hardware devices a fresh challenge (from the
  random bytes \<open>rnd\<close>) replaces the stored one; without, a stored one is deleted.
\<close>

definition get_context_data :: "env \<Rightarrow> string \<Rightarrow> user \<Rightarrow> state \<Rightarrow> state" where
  "get_context_data c rnd u st =
     (let devices = confirmed_devices u (db st)
      in if devices \<noteq> [] then
           session_set ''_u2f_challenge'' (PStr (start_authenticate c devices rnd)) st
         else if ''_u2f_challenge'' \<in> dom (session st) then
           st\<lparr>session := (session st)(''_u2f_challenge'' := None)\<rparr>
         else st)"

definition Login2FAView_get :: "env \<Rightarrow> string \<Rightarrow> user \<Rightarrow> state \<Rightarrow> outcome \<times> state" where
  "Login2FAView_get c rnd u st =
     (Inr (Render ''pretixcontrol/auth/login_2fa.html''), get_context_data c rnd u st)"

text \<open>
  Lines 318 to 331 of \<^verbatim>\<open>Login2FAView.post\<close>: the submitted token, and whether it
  verifies. With a stored challenge and a token that starts with a brace, the challenge
  is popped from the session and the hardware library decides
  (\<open>verify_authenticate\<close> is false when the library raises); otherwise the one-time
  code matcher decides.
\<close>

definition submitted_token :: "request \<Rightarrow> string" where
  "submitted_token req =
     remove_spaces (strip (case POST_params req ''token'' of None \<Rightarrow> [] | Some t \<Rightarrow> t))"

definition second_factor :: "env \<Rightarrow> request \<Rightarrow> user \<Rightarrow> state \<Rightarrow> bool \<times> state" where
  "second_factor c req u st =
     (let token = submitted_token req
      in case session st ''_u2f_challenge'' of
           Some challenge \<Rightarrow>
             if startswith token ''{'' then
               (let devices = confirmed_devices u (db st);
                    st1 = st\<lparr>session := (session st)(''_u2f_challenge'' := None)\<rparr>
                in (verify_authenticate c devices challenge token [get_u2f_appid req], st1))
             else (match_token c u token, st)
         | None \<Rightarrow> (match_token c u token, st))"

definition Login2FAView_post :: "env \<Rightarrow> real \<Rightarrow> request \<Rightarrow> user \<Rightarrow> state \<Rightarrow> outcome \<times> state" where
  "Login2FAView_post c now req u st =
     (let (valid, st1) = second_factor c req u st
      in if valid then
           (let st2 = do_auth_login c u st1;
                st3 = session_set ''pretix_auth_login_time'' (PInt (int_of_float now)) st2
            in case session_del ''pretix_auth_2fa_user'' st3 of
                 Inl e \<Rightarrow> (Inl e, st3)
               | Inr st4 \<Rightarrow>
                   (case session_del ''pretix_auth_2fa_time'' st4 of
                      Inl e \<Rightarrow> (Inl e, st4)
                    | Inr st5 \<Rightarrow> (Inr (Redirect (next_or_index c req)), st5)))
         else
           (Inr (Redirect ''control:auth.login.2fa''),
            add_message MsgError ''Invalid code, please try again.'' st1))"

text \<open>
  \<^verbatim>\<open>Login2FAView.dispatch\<close>. Lines 301 to 311 compute the flag \<^verbatim>\<open>fail\<close> and set
  \<^verbatim>\<open>self.user\<close>: that is \<open>Login2FAView_guard\<close>. The user lookup
  \<^verbatim>\<open>User.objects.get(pk=..., is_active=True)\<close> converts the stored key to a number
  first; only \<^verbatim>\<open>DoesNotExist\<close> is caught. Lines 312 to 315 reject or hand over to the
  handler of the request's method. \<open>now\<close> is the guard's reading of the clock,
  \<open>now'\<close> the later one of \<^verbatim>\<open>post\<close>.
\<close>

definition get_active_user :: "pyval \<Rightarrow> database \<Rightarrow> exn + user" where
  "get_active_user v d = (case py_int v of
       Inl e \<Rightarrow> Inl e
     | Inr k \<Rightarrow> objects_get (filter (\<lambda>u. pk u = k \<and> is_active u) (users d)))"

definition Login2FAView_guard :: "real \<Rightarrow> state \<Rightarrow> exn + (bool \<times> user option)" where
  "Login2FAView_guard now st =
     (case (case session st ''pretix_auth_2fa_user'' of
              None \<Rightarrow> Inr (True, None)
            | Some v \<Rightarrow>
                (case get_active_user v (db st) of
                   Inl e \<Rightarrow> if e = DoesNotExist then Inr (True, None) else Inl e
                 | Inr u \<Rightarrow> Inr (False, Some u))) of
        Inl e \<Rightarrow> Inl e
      | Inr (fail0, self_user) \<Rightarrow>
          (case py_int (case session st ''pretix_auth_2fa_time'' of
                          None \<Rightarrow> PStr ''1'' | Some v \<Rightarrow> v) of
             Inl e \<Rightarrow> Inl e
           | Inr logintime \<Rightarrow>
               Inr (if now - real_of_int logintime > 300 then True else fail0, self_user)))"

definition Login2FAView_dispatch ::
  "env \<Rightarrow> real \<Rightarrow> real \<Rightarrow> string \<Rightarrow> request \<Rightarrow> state \<Rightarrow> outcome \<times> state" where
  "Login2FAView_dispatch c now now' rnd req st =
     (case Login2FAView_guard now st of
        Inl e \<Rightarrow> (Inl e, st)
      | Inr (fail, self_user) \<Rightarrow>
          if fail then
            (Inr (Redirect ''control:auth.login''), add_message MsgError ''Please try again.'' st)
          else
            (case self_user of
               None \<Rightarrow> (Inl AttributeError, st)
             | Some u \<Rightarrow>
                 (case req_method req of
                    GET \<Rightarrow> Login2FAView_get c rnd u st
                  | HEAD \<Rightarrow> Login2FAView_get c rnd u st
                  | POST \<Rightarrow> Login2FAView_post c now' req u st
                  | OPTIONS \<Rightarrow> (Inr OptionsResponse, st)
                  | OtherMethod \<Rightarrow> (Inr MethodNotAllowed, st))))"

section \<open>A concrete instance\<close>

text \<open>
  Settings, collaborators and a small database on which the views can be run: user 7
  (active, second factor required, one confirmed hardware device), user 8 (inactive),
  user 9 (active, no second factor); one invite to team 3. The one-time code
  \<open>123456\<close> and the hardware response \<open>{ok}\<close> are the valid tokens.
\<close>

definition example_env :: env where
  "example_env =
     \<lparr>PRETIX_REGISTRATION = True, PRETIX_PASSWORD_RESET = True, PRETIX_LONG_SESSIONS = True,
      HAS_REDIS = True, TIME_ZONE = ''UTC'',
      reverse = (\<lambda>n. ''/'' @ n),
      build_absolute_uri = (\<lambda>n. ''https://pretix.example/'' @ n),
      quote = (\<lambda>u. u),
      is_safe_url = (\<lambda>u. startswith u ''/''),
      auth_login = (\<lambda>s u. s(''_auth_user_id'' \<mapsto> PInt (pk u))),
      auth_logout = (\<lambda>s. Map.empty),
      authenticate = (\<lambda>e p d. find (\<lambda>u. email u = e \<and> password u = p \<and> is_active u) (users d)),
      LoginForm = (\<lambda>p d. case (p ''email'', p ''password'') of
                      (Some e, Some w) \<Rightarrow>
                        Some (find (\<lambda>u. email u = e \<and> password u = w \<and> is_active u) (users d),
                              p ''keep_logged_in'' \<noteq> None)
                    | _ \<Rightarrow> None),
      RegistrationForm = (\<lambda>p d. case (p ''email'', p ''password'') of
                      (Some e, Some w) \<Rightarrow>
                        if find (\<lambda>u. email u = e) (users d) = None
                        then Some \<lparr>reg_email = e, reg_password = w,
                                   reg_keep_logged_in = (p ''keep_logged_in'' \<noteq> None)\<rparr>
                        else None
                    | _ \<Rightarrow> None),
      PasswordForgotForm = (\<lambda>p d. case p ''email'' of
                      Some e \<Rightarrow> find (\<lambda>u. email u = e) (users d)
                    | None \<Rightarrow> None),
      PasswordRecoverForm = (\<lambda>p i d. p ''password''),
      make_token = (\<lambda>u. ''t-'' @ password u),
      check_token = (\<lambda>u t. t = Some (''t-'' @ password u)),
      match_token = (\<lambda>u t. t = ''123456''),
      verify_authenticate = (\<lambda>ds ch t apps. t = ''{ok}''),
      start_authenticate = (\<lambda>ds r. r),
      mail_transport_ok = (\<lambda>m. True),
      tx_fault = (\<lambda>s. False)\<rparr>"

definition example_user :: "int \<Rightarrow> string \<Rightarrow> bool \<Rightarrow> bool \<Rightarrow> user" where
  "example_user k e a t =
     \<lparr>pk = k, email = e, password = ''pw'', is_active = a, require_2fa = t,
      user_locale = ''en'', user_timezone = ''UTC''\<rparr>"

definition example_invite :: team_invite where
  "example_invite =
     \<lparr>inv_pk = 1, inv_team = \<lparr>team_pk = 3, team_name = ''crew''\<rparr>,
      inv_email = ''new@pretix.example'', inv_token = ''abc''\<rparr>"

definition example_db :: database where
  "example_db =
     \<lparr>users = [example_user 7 ''a@pretix.example'' True True,
               example_user 8 ''b@pretix.example'' False True,
               example_user 9 ''c@pretix.example'' True False],
      user_seq = 10,
      team_members = [],
      invites = [example_invite],
      logs = [],
      u2f_devices = [\<lparr>dev_user = 7, dev_confirmed = True, dev_json_data = ''device''\<rparr>]\<rparr>"

definition example_state :: "session \<Rightarrow> state" where
  "example_state s =
     \<lparr>session = s, request_user = None, messages = [], db = example_db,
      redis = Map.empty, outbox = []\<rparr>"

definition example_request :: "http_method \<Rightarrow> (string \<rightharpoonup> string) \<Rightarrow> (string \<rightharpoonup> string) \<Rightarrow> request" where
  "example_request m g p =
     \<lparr>req_method = m, GET_params = g, POST_params = p, LANGUAGE_CODE = ''en'',
      req_timezone = None, is_secure = True, get_host = ''pretix.example''\<rparr>"

text \<open>The user that registering with \<open>n@pretix.example\<close> creates in the example database.\<close>

definition example_new_user :: user where
  "example_new_user =
     \<lparr>pk = 10, email = ''n@pretix.example'', password = ''s'', is_active = True,
      require_2fa = False, user_locale = ''en'', user_timezone = ''UTC''\<rparr>"

section \<open>Log entries, the created user and storage faults\<close>

text \<open>
  Names for what the statements about registration and invites speak of: the log
  entries the views append, the row \<^verbatim>\<open>create_user\<close> inserts for a registration, and
  whether the storage fails under any statement of the invite transaction.
\<close>

definition created_entry :: "user \<Rightarrow> log_entry" where
  "created_entry u =
     \<lparr>log_object = OnUser (pk u), log_action_type = ''pretix.control.auth.user.created'',
      log_user = Some (pk u), log_data = []\<rparr>"

definition joined_entry :: "team_invite \<Rightarrow> user \<Rightarrow> log_entry" where
  "joined_entry iv u =
     \<lparr>log_object = OnTeam (team_pk (inv_team iv)), log_action_type = ''pretix.team.member.joined'',
      log_user = None,
      log_data = [(''email'', PStr (email u)), (''invite_email'', PStr (inv_email iv)),
                  (''user'', PInt (pk u))]\<rparr>"

definition new_user :: "env \<Rightarrow> request \<Rightarrow> registration_data \<Rightarrow> database \<Rightarrow> user" where
  "new_user c req r d =
     \<lparr>pk = user_seq d, email = reg_email r, password = reg_password r, is_active = True,
      require_2fa = False, user_locale = LANGUAGE_CODE req,
      user_timezone = (case req_timezone req of Some z \<Rightarrow> z | None \<Rightarrow> TIME_ZONE c)\<rparr>"

definition tx_fails :: "env \<Rightarrow> bool" where
  "tx_fails c = (tx_fault c TxMembersAdd \<or> tx_fault c TxLogAction \<or> tx_fault c TxInviteDelete)"

section \<open>Frame conditions on the framework's login\<close>

text \<open>
  \<^verbatim>\<open>django.contrib.auth.login\<close> writes to the session it is given. What it writes is
  the framework's business; where a property of a view depends on the login leaving a
  session key as it found it, the property says so with \<open>login_keeps\<close>.
\<close>

definition login_keeps :: "env \<Rightarrow> user \<Rightarrow> session \<Rightarrow> string list \<Rightarrow> bool" where
  "login_keeps c u s ks = list_all (\<lambda>k. auth_login c s u k = s k) ks"

section \<open>Unfolding the example\<close>

lemmas example_defs = example_env_def example_state_def example_db_def example_user_def
  example_request_def example_invite_def

lemmas token_defs = submitted_token_def strip_def remove_spaces_def is_space_def startswith_def

section \<open>Lookups by key\<close>

lemma filter_key_cases:
  "distinct (map f xs) \<Longrightarrow>
     filter (\<lambda>x. f x = k \<and> P x) xs = [] \<or> (\<exists>y. filter (\<lambda>x. f x = k \<and> P x) xs = [y])"
proof (induction xs)
  case Nil
  then show ?case by simp
next
  case (Cons a xs)
  have rest: "filter (\<lambda>x. f x = k \<and> P x) xs = []" if "f a = k"
  proof -
    have "\<forall>x\<in>set xs. f x \<noteq> k" using Cons.prems that by (auto simp: image_iff)
    then show ?thesis by (simp add: filter_empty_conv)
  qed
  from Cons show ?case by (auto simp: rest)
qed

lemma filter_key_unique:
  "distinct (map f xs) \<Longrightarrow> x \<in> set xs \<Longrightarrow> filter (\<lambda>y. f y = f x) xs = [x]"
proof (induction xs)
  case Nil
  then show ?case by simp
next
  case (Cons a xs)
  show ?case
  proof (cases "a = x")
    case True
    have "\<forall>y\<in>set xs. f y \<noteq> f x" using Cons.prems True by (auto simp: image_iff)
    then have "filter (\<lambda>y. f y = f x) xs = []" by (simp add: filter_empty_conv)
    with True show ?thesis by simp
  next
    case False
    with Cons.prems have mem: "x \<in> set xs" by simp
    then have "f a \<noteq> f x" using Cons.prems by (auto simp: image_iff)
    with Cons.IH mem Cons.prems show ?thesis by simp
  qed
qed

section \<open>Decimal strings\<close>

text \<open>What \<^verbatim>\<open>str\<close> prints of an integer, \<^verbatim>\<open>int\<close> reads back.\<close>

lemma of_char_digit_char: "d < 10 \<Longrightarrow> (of_char (digit_char d) :: nat) = 48 + d"
  by (simp add: digit_char_def)

lemma digit_char_props:
  assumes "d < 10"
  shows "is_digit (digit_char d)" "\<not> is_space (digit_char d)"
    "digit_char d \<noteq> CHR ''-''" "digit_char d \<noteq> CHR ''+''"
proof -
  have v: "(of_char (digit_char d) :: nat) = 48 + d" using assms by (rule of_char_digit_char)
  show "is_digit (digit_char d)" using assms by (simp add: is_digit_def v)
  show "\<not> is_space (digit_char d)" by (simp add: is_space_def v)
  have "(of_char (digit_char d) :: nat) \<noteq> of_char CHR ''-''" using assms by (simp add: v)
  then show "digit_char d \<noteq> CHR ''-''" by auto
  have "(of_char (digit_char d) :: nat) \<noteq> of_char CHR ''+''" by (simp add: v)
  then show "digit_char d \<noteq> CHR ''+''" by auto
qed

lemma str_nat_digits: "list_all is_digit (str_nat n) \<and> str_nat n \<noteq> []"
proof (induction n rule: str_nat.induct)
  case (1 n)
  show ?case
  proof (cases "n < 10")
    case True
    then show ?thesis by (subst (1 2) str_nat.simps) (simp add: digit_char_props)
  next
    case False
    with "1" show ?thesis by (subst (1 2) str_nat.simps) (simp add: digit_char_props)
  qed
qed

lemma digits_value_snoc:
  "digits_value acc (cs @ [ch]) = 10 * digits_value acc cs + (of_char ch - 48)"
  by (induction cs arbitrary: acc) simp_all

lemma digits_value_str_nat: "digits_value 0 (str_nat n) = n"
proof (induction n rule: str_nat.induct)
  case (1 n)
  show ?case
  proof (cases "n < 10")
    case True
    then show ?thesis by (subst str_nat.simps) (simp add: of_char_digit_char)
  next
    case False
    then have "digits_value 0 (str_nat n) = 10 * digits_value 0 (str_nat (n div 10)) + n mod 10"
      by (subst str_nat.simps) (simp add: digits_value_snoc of_char_digit_char)
    with "1" False show ?thesis by simp
  qed
qed

lemma digit_not_space: "is_digit ch \<Longrightarrow> \<not> is_space ch"
  by (auto simp: is_digit_def is_space_def)

lemma dropWhile_none: "xs = [] \<or> \<not> P (hd xs) \<Longrightarrow> dropWhile P xs = xs"
  by (cases xs) auto

lemma strip_unspaced:
  assumes "xs \<noteq> []" "\<not> is_space (hd xs)" "\<not> is_space (last xs)"
  shows "strip xs = xs"
proof -
  have "dropWhile is_space xs = xs" using assms by (simp add: dropWhile_none)
  moreover have "dropWhile is_space (rev xs) = rev xs"
    using assms by (intro dropWhile_none) (simp add: hd_rev)
  ultimately show ?thesis by (simp add: strip_def)
qed

lemma str_nat_ends: "is_digit (hd (str_nat n))" "is_digit (last (str_nat n))"
proof -
  from str_nat_digits [of n] have a: "\<forall>ch\<in>set (str_nat n). is_digit ch" and b: "str_nat n \<noteq> []"
    by (simp_all add: list_all_iff)
  from a b show "is_digit (hd (str_nat n))" by simp
  from a b show "is_digit (last (str_nat n))" by simp
qed

lemma is_digit_not_sign: "is_digit ch \<Longrightarrow> ch \<noteq> CHR ''-'' \<and> ch \<noteq> CHR ''+''"
  by (auto simp: is_digit_def)

lemma int_of_str_str_int: "int_of_str (str_int i) = Inr i"
proof (cases "i < 0")
  case True
  let ?ds = "str_nat (nat (- i))"
  have ne: "?ds \<noteq> []" and all: "list_all is_digit ?ds" using str_nat_digits by simp_all
  have "\<not> is_space (last (CHR ''-'' # ?ds))"
    using ne str_nat_ends(2) [of "nat (- i)"] by (simp add: digit_not_space)
  moreover have "\<not> is_space CHR ''-''" by (simp add: is_space_def)
  ultimately have s: "strip (CHR ''-'' # ?ds) = CHR ''-'' # ?ds"
    by (intro strip_unspaced) simp_all
  show ?thesis using True ne all
    by (simp add: str_int_def int_of_str_def s Let_def digits_value_str_nat)
next
  case False
  let ?ds = "str_nat (nat i)"
  have ne: "?ds \<noteq> []" and all: "list_all is_digit ?ds" using str_nat_digits by simp_all
  have s: "strip ?ds = ?ds"
    using ne str_nat_ends [of "nat i"] by (intro strip_unspaced) (simp_all add: digit_not_space)
  obtain ch r where cons: "?ds = ch # r" using ne by (cases ?ds) auto
  with str_nat_ends(1) [of "nat i"] have "ch \<noteq> CHR ''-'' \<and> ch \<noteq> CHR ''+''"
    by (simp add: is_digit_not_sign)
  then show ?thesis
    using False all [unfolded cons] digits_value_str_nat [of "nat i", unfolded cons]
    by (simp add: str_int_def int_of_str_def cons s [unfolded cons] Let_def)
qed

section \<open>The guard of the second-factor view\<close>

text \<open>The guard's verdict on a session whose pending key is a number and whose timestamp reads as \<open>t\<close>.\<close>

lemma guard_verdict:
  assumes keys: "distinct (map pk (users (db st)))"
    and uid: "session st ''pretix_auth_2fa_user'' = Some (PInt k)"
    and tm: "py_int (case session st ''pretix_auth_2fa_time'' of None \<Rightarrow> PStr ''1'' | Some v \<Rightarrow> v) = Inr t"
  shows "(filter (\<lambda>u. pk u = k \<and> is_active u) (users (db st)) = []
            \<and> Login2FAView_guard now st = Inr (True, None))
         \<or> (\<exists>u. filter (\<lambda>u. pk u = k \<and> is_active u) (users (db st)) = [u]
                \<and> Login2FAView_guard now st = Inr (300 < now - real_of_int t, Some u))"
proof -
  let ?rows = "filter (\<lambda>u. pk u = k \<and> is_active u) (users (db st))"
  have look: "get_active_user (PInt k) (db st) = objects_get ?rows"
    by (simp add: get_active_user_def py_int_def)
  from filter_key_cases [OF keys, of k is_active]
  consider "?rows = []" | u where "?rows = [u]" by blast
  then show ?thesis
  proof cases
    case 1
    then show ?thesis using uid tm look
      by (simp add: Login2FAView_guard_def objects_get_def)
  next
    case 2
    then show ?thesis using uid tm look
      by (simp add: Login2FAView_guard_def objects_get_def)
  qed
qed

lemma guard_no_pending:
  assumes uid: "session st ''pretix_auth_2fa_user'' = None"
    and tm: "py_int (case session st ''pretix_auth_2fa_time'' of None \<Rightarrow> PStr ''1'' | Some v \<Rightarrow> v) = Inr t"
  shows "Login2FAView_guard now st = Inr (True, None)"
  using uid tm by (simp add: Login2FAView_guard_def)

lemma dispatch_rejected:
  "Login2FAView_guard now st = Inr (True, su) \<Longrightarrow>
     Login2FAView_dispatch c now now' rnd req st =
       (Inr (Redirect ''control:auth.login''), add_message MsgError ''Please try again.'' st)"
  by (simp add: Login2FAView_dispatch_def)

text \<open>
  The pending state as the login view writes it, and what the guard makes of it: a
  session that \<^verbatim>\<open>login\<close> left pending at \<open>t0\<close> for an active user passes the guard
  until 300 seconds after the whole second of \<open>t0\<close>, and fails it from then on.
\<close>

lemma login_pending:
  assumes anon: "request_user st = None"
    and post: "req_method req = POST"
    and form: "LoginForm c (POST_params req) (db st) = Some (Some u, keep)"
    and tfa: "require_2fa u"
  shows "snd (login c t0 req st) =
           st\<lparr>session := (session st)
                  (''pretix_auth_long_session'' \<mapsto> long_session c keep,
                   ''pretix_auth_2fa_user'' \<mapsto> PInt (pk u),
                   ''pretix_auth_2fa_time'' \<mapsto> PStr (str_int (int_of_float t0)))\<rparr>"
  using assms by (simp add: login_def Let_def session_set_def)

lemma guard_after_login:
  assumes anon: "request_user st = None"
    and post: "req_method req = POST"
    and form: "LoginForm c (POST_params req) (db st) = Some (Some u, keep)"
    and tfa: "require_2fa u"
    and keys: "distinct (map pk (users (db st)))"
    and row: "u \<in> set (users (db st))" "is_active u"
  shows "Login2FAView_guard now (snd (login c t0 req st))
           = Inr (300 < now - real_of_int (int_of_float t0), Some u)"
proof -
  let ?st1 = "snd (login c t0 req st)"
  note st1 = login_pending [OF anon post form tfa, of t0]
  have k: "distinct (map pk (users (db ?st1)))" using keys by (simp add: st1)
  have uid: "session ?st1 ''pretix_auth_2fa_user'' = Some (PInt (pk u))" by (simp add: st1)
  have tm: "py_int (case session ?st1 ''pretix_auth_2fa_time'' of None \<Rightarrow> PStr ''1'' | Some v \<Rightarrow> v)
              = Inr (int_of_float t0)"
    by (simp add: st1 py_int_def int_of_str_str_int)
  have "filter (\<lambda>x. pk x = pk u) (users (db st)) = [u]"
    using filter_key_unique [OF keys row(1)] .
  then have rows: "filter (\<lambda>x. pk x = pk u \<and> is_active x) (users (db ?st1)) = [u]"
    using row(2) filter_filter [of is_active "\<lambda>x. pk x = pk u" "users (db st)"]
    by (simp add: st1 conj_commute)
  from guard_verdict [OF k uid tm, of now] rows show ?thesis by auto
qed

text \<open>
  Claim C1. Every request to the second-factor endpoint, whatever its method and
  whatever token it submits, is answered with the generic error and a redirect to the
  login page, and with nothing else, when the pending timestamp is more than 300 seconds
  in the past, or no pending user id is in the session, or the stored id matches no
  active user. The session is one the login view can have written: the pending id, if
  present, is a number, and the timestamp reads as the number \<open>t\<close> (the sentinel 1
  when it is absent); user keys are unique. The result does not mention the
  collaborators or the request, so no verification took place.
\<close>

theorem guard_rejects:
  fixes t :: int
  assumes keys: "distinct (map pk (users (db st)))"
    and uid: "session st ''pretix_auth_2fa_user'' = None
              \<or> (\<exists>k. session st ''pretix_auth_2fa_user'' = Some (PInt k))"
    and tm: "py_int (case session st ''pretix_auth_2fa_time'' of None \<Rightarrow> PStr ''1'' | Some v \<Rightarrow> v) = Inr t"
    and bad: "300 < now - real_of_int t
              \<or> session st ''pretix_auth_2fa_user'' = None
              \<or> (\<exists>k. session st ''pretix_auth_2fa_user'' = Some (PInt k)
                       \<and> filter (\<lambda>u. pk u = k \<and> is_active u) (users (db st)) = [])"
  shows "Login2FAView_dispatch c now now' rnd req st =
           (Inr (Redirect ''control:auth.login''), add_message MsgError ''Please try again.'' st)"
proof (cases "session st ''pretix_auth_2fa_user''")
  case None
  then show ?thesis using guard_no_pending [OF _ tm] dispatch_rejected by blast
next
  case (Some v)
  with uid obtain k where v: "session st ''pretix_auth_2fa_user'' = Some (PInt k)" by auto
  from guard_verdict [OF keys v tm, of now] bad v
  have "\<exists>su. Login2FAView_guard now st = Inr (True, su)" by auto
  then show ?thesis using dispatch_rejected by blast
qed

theorem guard_rejects_witness:
  "Login2FAView_dispatch example_env 1000 1000 ''r''
      (example_request POST Map.empty [''token'' \<mapsto> ''123456''])
      (example_state [''pretix_auth_2fa_user'' \<mapsto> PInt 7, ''pretix_auth_2fa_time'' \<mapsto> PStr ''600''])
    = (Inr (Redirect ''control:auth.login''),
       add_message MsgError ''Please try again.''
         (example_state [''pretix_auth_2fa_user'' \<mapsto> PInt 7, ''pretix_auth_2fa_time'' \<mapsto> PStr ''600'']))
   \<and> match_token example_env (example_user 7 ''a@pretix.example'' True True)
        (submitted_token (example_request POST Map.empty [''token'' \<mapsto> ''123456'']))
   \<and> Login2FAView_dispatch example_env 1000 1000 ''r''
      (example_request POST Map.empty [''token'' \<mapsto> ''123456''])
      (example_state [''pretix_auth_2fa_time'' \<mapsto> PStr ''800''])
    = (Inr (Redirect ''control:auth.login''),
       add_message MsgError ''Please try again.''
         (example_state [''pretix_auth_2fa_time'' \<mapsto> PStr ''800'']))
   \<and> Login2FAView_dispatch example_env 1000 1000 ''r''
      (example_request GET Map.empty Map.empty)
      (example_state [''pretix_auth_2fa_user'' \<mapsto> PInt 8, ''pretix_auth_2fa_time'' \<mapsto> PStr ''800''])
    = (Inr (Redirect ''control:auth.login''),
       add_message MsgError ''Please try again.''
         (example_state [''pretix_auth_2fa_user'' \<mapsto> PInt 8, ''pretix_auth_2fa_time'' \<mapsto> PStr ''800'']))"
proof -
  let ?old = "example_state [''pretix_auth_2fa_user'' \<mapsto> PInt 7, ''pretix_auth_2fa_time'' \<mapsto> PStr ''600'']"
  let ?noid = "example_state [''pretix_auth_2fa_time'' \<mapsto> PStr ''800'']"
  let ?inactive = "example_state [''pretix_auth_2fa_user'' \<mapsto> PInt 8, ''pretix_auth_2fa_time'' \<mapsto> PStr ''800'']"
  have keys: "distinct (map pk (users (db (example_state s))))" for s
    by (simp add: example_state_def example_db_def example_user_def)
  have uid: "session ?old ''pretix_auth_2fa_user'' = None
              \<or> (\<exists>k. session ?old ''pretix_auth_2fa_user'' = Some (PInt k))"
       "session ?noid ''pretix_auth_2fa_user'' = None
              \<or> (\<exists>k. session ?noid ''pretix_auth_2fa_user'' = Some (PInt k))"
       "session ?inactive ''pretix_auth_2fa_user'' = None
              \<or> (\<exists>k. session ?inactive ''pretix_auth_2fa_user'' = Some (PInt k))"
    by (simp_all add: example_state_def)
  have tm: "py_int (case session ?old ''pretix_auth_2fa_time'' of None \<Rightarrow> PStr ''1'' | Some v \<Rightarrow> v) = Inr 600"
       "py_int (case session ?noid ''pretix_auth_2fa_time'' of None \<Rightarrow> PStr ''1'' | Some v \<Rightarrow> v) = Inr 800"
       "py_int (case session ?inactive ''pretix_auth_2fa_time'' of None \<Rightarrow> PStr ''1'' | Some v \<Rightarrow> v) = Inr 800"
    by (simp_all add: example_state_def py_int_def int_of_str_def strip_def is_space_def is_digit_def)
  have expired: "300 < (1000::real) - real_of_int 600
              \<or> session ?old ''pretix_auth_2fa_user'' = None
              \<or> (\<exists>k. session ?old ''pretix_auth_2fa_user'' = Some (PInt k)
                       \<and> filter (\<lambda>u. pk u = k \<and> is_active u) (users (db ?old)) = [])"
    by simp
  have no_id: "300 < (1000::real) - real_of_int 800
              \<or> session ?noid ''pretix_auth_2fa_user'' = None
              \<or> (\<exists>k. session ?noid ''pretix_auth_2fa_user'' = Some (PInt k)
                       \<and> filter (\<lambda>u. pk u = k \<and> is_active u) (users (db ?noid)) = [])"
    by (simp add: example_state_def)
  have no_active: "300 < (1000::real) - real_of_int 800
              \<or> session ?inactive ''pretix_auth_2fa_user'' = None
              \<or> (\<exists>k. session ?inactive ''pretix_auth_2fa_user'' = Some (PInt k)
                       \<and> filter (\<lambda>u. pk u = k \<and> is_active u) (users (db ?inactive)) = [])"
    by (simp add: example_state_def example_db_def example_user_def)
  have tok: "match_token example_env (example_user 7 ''a@pretix.example'' True True)
        (submitted_token (example_request POST Map.empty [''token'' \<mapsto> ''123456'']))"
    by (simp add: example_env_def token_defs example_request_def)
  show ?thesis
    using guard_rejects [OF keys uid(1) tm(1) expired] guard_rejects [OF keys uid(2) tm(2) no_id]
      guard_rejects [OF keys uid(3) tm(3) no_active] tok
    by simp
qed

text \<open>
  Claim C10. A session with a pending user id and no pending timestamp: the guard reads
  the sentinel \<open>'1'\<close> as the number 1, one second after the epoch. On any clock later
  than 301 seconds after the epoch (every clock that shows the present) the elapsed time
  exceeds 300 seconds, and the request is rejected to the login page whatever it
  submits; the second factor is not verified.
\<close>

theorem missing_timestamp_rejected:
  assumes keys: "distinct (map pk (users (db st)))"
    and uid: "session st ''pretix_auth_2fa_user'' = Some (PInt k)"
    and nots: "session st ''pretix_auth_2fa_time'' = None"
    and clock: "301 < now"
  shows "py_int (case session st ''pretix_auth_2fa_time'' of None \<Rightarrow> PStr ''1'' | Some v \<Rightarrow> v) = Inr 1
         \<and> 300 < now - real_of_int 1
         \<and> Login2FAView_dispatch c now now' rnd req st =
             (Inr (Redirect ''control:auth.login''), add_message MsgError ''Please try again.'' st)"
proof -
  have tm: "py_int (case session st ''pretix_auth_2fa_time'' of None \<Rightarrow> PStr ''1'' | Some v \<Rightarrow> v) = Inr 1"
    using nots by (simp add: py_int_def int_of_str_def strip_def is_space_def is_digit_def)
  have late: "300 < now - real_of_int 1" using clock by simp
  from guard_verdict [OF keys uid tm, of now] late
  have "\<exists>su. Login2FAView_guard now st = Inr (True, su)" by auto
  then have "Login2FAView_dispatch c now now' rnd req st =
             (Inr (Redirect ''control:auth.login''), add_message MsgError ''Please try again.'' st)"
    using dispatch_rejected by blast
  with tm late show ?thesis by simp
qed

theorem missing_timestamp_rejected_witness:
  "Login2FAView_dispatch example_env 1500000000 1500000000 ''r''
      (example_request POST Map.empty [''token'' \<mapsto> ''123456''])
      (example_state [''pretix_auth_2fa_user'' \<mapsto> PInt 7])
    = (Inr (Redirect ''control:auth.login''),
       add_message MsgError ''Please try again.'' (example_state [''pretix_auth_2fa_user'' \<mapsto> PInt 7]))"
proof -
  let ?st = "example_state [''pretix_auth_2fa_user'' \<mapsto> PInt 7]"
  have keys: "distinct (map pk (users (db ?st)))"
    by (simp add: example_state_def example_db_def example_user_def)
  have uid: "session ?st ''pretix_auth_2fa_user'' = Some (PInt 7)"
    by (simp add: example_state_def)
  have nots: "session ?st ''pretix_auth_2fa_time'' = None"
    by (simp add: example_state_def)
  have clock: "301 < (1500000000::real)" by simp
  show ?thesis using missing_timestamp_rejected [OF keys uid nots clock] by simp
qed

section \<open>Submitting the second factor\<close>

lemma second_factor_session:
  "session (snd (second_factor c req u st)) k =
     (if k = ''_u2f_challenge'' \<and> startswith (submitted_token req) ''{'' then None else session st k)"
  by (auto simp: second_factor_def Let_def split: option.splits)

lemma second_factor_other:
  "request_user (snd (second_factor c req u st)) = request_user st"
  "messages (snd (second_factor c req u st)) = messages st"
  "db (snd (second_factor c req u st)) = db st"
  by (auto simp: second_factor_def Let_def split: option.splits)

lemma post_success:
  assumes valid: "fst (second_factor c req u st)"
    and uid: "session st ''pretix_auth_2fa_user'' = Some v"
    and tm: "session st ''pretix_auth_2fa_time'' = Some w"
    and frame: "login_keeps c u (session (snd (second_factor c req u st)))
                  [''pretix_auth_2fa_user'', ''pretix_auth_2fa_time'']"
  shows "Login2FAView_post c now req u st =
           (Inr (Redirect (next_or_index c req)),
            (snd (second_factor c req u st))
              \<lparr>session := (auth_login c (session (snd (second_factor c req u st))) u)
                  (''pretix_auth_login_time'' \<mapsto> PInt (int_of_float now),
                   ''pretix_auth_2fa_user'' := None,
                   ''pretix_auth_2fa_time'' := None),
               request_user := Some u\<rparr>)"
proof -
  obtain b st1 where sf: "second_factor c req u st = (b, st1)" by (cases "second_factor c req u st")
  from valid sf have b: "b" by simp
  have s1: "session st1 ''pretix_auth_2fa_user'' = Some v" "session st1 ''pretix_auth_2fa_time'' = Some w"
    using second_factor_session [of c req u st] sf uid tm by auto
  have k: "auth_login c (session st1) u ''pretix_auth_2fa_user'' = Some v"
          "auth_login c (session st1) u ''pretix_auth_2fa_time'' = Some w"
    using frame sf s1 by (simp_all add: login_keeps_def)
  show ?thesis
    using b k
    by (simp add: Login2FAView_post_def sf Let_def session_del_def session_set_def do_auth_login_def)
qed





section \<open>What happens to the pending state\<close>

lemma guard_reads:
  "session st' = session st \<Longrightarrow> db st' = db st \<Longrightarrow> Login2FAView_guard now st' = Login2FAView_guard now st"
  unfolding Login2FAView_guard_def by (erule ssubst, erule ssubst) (rule refl)

lemma guard_stays_failed:
  assumes "Login2FAView_guard now st = Inr (True, su)" and "now \<le> later"
  shows "\<exists>su'. Login2FAView_guard later st = Inr (True, su')"
  using assms
  by (auto simp: Login2FAView_guard_def split: option.splits sum.splits if_splits)

text \<open>
  Claim C2, as stated, fails: a request that the guard rejects because the pending state
  has expired leaves the pending user id and its timestamp in the session. Here the
  timestamp is 600, the clock shows 1000, the request is redirected to the login page,
  and both entries are still stored afterwards.
\<close>

theorem expired_pending_kept_counterexample:
  "fst (Login2FAView_dispatch example_env 1000 1000 ''r'' (example_request GET Map.empty Map.empty)
          (example_state [''pretix_auth_2fa_user'' \<mapsto> PInt 7, ''pretix_auth_2fa_time'' \<mapsto> PStr ''600'']))
     = Inr (Redirect ''control:auth.login'')
   \<and> session (snd (Login2FAView_dispatch example_env 1000 1000 ''r'' (example_request GET Map.empty Map.empty)
          (example_state [''pretix_auth_2fa_user'' \<mapsto> PInt 7, ''pretix_auth_2fa_time'' \<mapsto> PStr ''600''])))
        ''pretix_auth_2fa_user'' = Some (PInt 7)
   \<and> session (snd (Login2FAView_dispatch example_env 1000 1000 ''r'' (example_request GET Map.empty Map.empty)
          (example_state [''pretix_auth_2fa_user'' \<mapsto> PInt 7, ''pretix_auth_2fa_time'' \<mapsto> PStr ''600''])))
        ''pretix_auth_2fa_time'' = Some (PStr ''600'')"
  by code_simp

text \<open>
  Claim C2, amended. A successful second-factor verification removes the pending user id
  and the pending timestamp together (both are present before, both are absent after; the
  framework's login is taken to leave the two keys alone). A rejection by the guard
  removes neither: the session is left exactly as it was. The stale pending state stays
  unusable, since the guard fails again on the state left behind at every clock reading
  that is not earlier.
\<close>

theorem pending_cleared_on_success_only:
  "(fst (second_factor c req u st) \<longrightarrow>
      session st ''pretix_auth_2fa_user'' \<noteq> None \<longrightarrow>
      session st ''pretix_auth_2fa_time'' \<noteq> None \<longrightarrow>
      login_keeps c u (session (snd (second_factor c req u st)))
         [''pretix_auth_2fa_user'', ''pretix_auth_2fa_time''] \<longrightarrow>
      session (snd (Login2FAView_post c now' req u st)) ''pretix_auth_2fa_user'' = None
      \<and> session (snd (Login2FAView_post c now' req u st)) ''pretix_auth_2fa_time'' = None)
   \<and> (Login2FAView_guard now st = Inr (True, su) \<longrightarrow>
      fst (Login2FAView_dispatch c now now' rnd req st) = Inr (Redirect ''control:auth.login'')
      \<and> session (snd (Login2FAView_dispatch c now now' rnd req st)) = session st
      \<and> (\<forall>later. now \<le> later \<longrightarrow>
            (\<exists>su'. Login2FAView_guard later (snd (Login2FAView_dispatch c now now' rnd req st))
                     = Inr (True, su'))))"
proof (intro conjI impI)
  assume valid: "fst (second_factor c req u st)"
    and uid: "session st ''pretix_auth_2fa_user'' \<noteq> None"
    and tm: "session st ''pretix_auth_2fa_time'' \<noteq> None"
    and frame: "login_keeps c u (session (snd (second_factor c req u st)))
         [''pretix_auth_2fa_user'', ''pretix_auth_2fa_time'']"
  from uid tm obtain v w where vw: "session st ''pretix_auth_2fa_user'' = Some v"
     "session st ''pretix_auth_2fa_time'' = Some w" by auto
  show "session (snd (Login2FAView_post c now' req u st)) ''pretix_auth_2fa_user'' = None"
    by (simp add: post_success [OF valid vw frame])
  show "session (snd (Login2FAView_post c now' req u st)) ''pretix_auth_2fa_time'' = None"
    by (simp add: post_success [OF valid vw frame])
next
  assume g: "Login2FAView_guard now st = Inr (True, su)"
  have d: "Login2FAView_dispatch c now now' rnd req st =
       (Inr (Redirect ''control:auth.login''), add_message MsgError ''Please try again.'' st)"
    using g by (rule dispatch_rejected)
  show "fst (Login2FAView_dispatch c now now' rnd req st) = Inr (Redirect ''control:auth.login'')"
    by (simp add: d)
  show "session (snd (Login2FAView_dispatch c now now' rnd req st)) = session st"
    by (simp add: d add_message_def)
  show "\<forall>later. now \<le> later \<longrightarrow>
            (\<exists>su'. Login2FAView_guard later (snd (Login2FAView_dispatch c now now' rnd req st))
                     = Inr (True, su'))"
  proof (intro allI impI)
    fix later :: real
    assume le: "now \<le> later"
    have "Login2FAView_guard later (add_message MsgError ''Please try again.'' st)
            = Login2FAView_guard later st"
      by (rule guard_reads) (simp_all add: add_message_def)
    with guard_stays_failed [OF g le] show
      "\<exists>su'. Login2FAView_guard later (snd (Login2FAView_dispatch c now now' rnd req st)) = Inr (True, su')"
      by (simp add: d)
  qed
qed

theorem pending_cleared_on_success_only_witness:
  "session (snd (Login2FAView_post example_env 1000
       (example_request POST Map.empty [''token'' \<mapsto> ''123456''])
       (example_user 7 ''a@pretix.example'' True True)
       (example_state [''pretix_auth_2fa_user'' \<mapsto> PInt 7, ''pretix_auth_2fa_time'' \<mapsto> PStr ''600''])))
     ''pretix_auth_2fa_user'' = None
   \<and> session (snd (Login2FAView_post example_env 1000
       (example_request POST Map.empty [''token'' \<mapsto> ''123456''])
       (example_user 7 ''a@pretix.example'' True True)
       (example_state [''pretix_auth_2fa_user'' \<mapsto> PInt 7, ''pretix_auth_2fa_time'' \<mapsto> PStr ''600''])))
     ''pretix_auth_2fa_time'' = None
   \<and> Login2FAView_guard 1000
       (example_state [''pretix_auth_2fa_user'' \<mapsto> PInt 7, ''pretix_auth_2fa_time'' \<mapsto> PStr ''600''])
     = Inr (True, Some (example_user 7 ''a@pretix.example'' True True))
   \<and> session (snd (Login2FAView_dispatch example_env 1000 1000 ''r''
       (example_request POST Map.empty [''token'' \<mapsto> ''123456''])
       (example_state [''pretix_auth_2fa_user'' \<mapsto> PInt 7, ''pretix_auth_2fa_time'' \<mapsto> PStr ''600''])))
     = [''pretix_auth_2fa_user'' \<mapsto> PInt 7, ''pretix_auth_2fa_time'' \<mapsto> PStr ''600'']
   \<and> (\<exists>su'. Login2FAView_guard 2000 (snd (Login2FAView_dispatch example_env 1000 1000 ''r''
       (example_request POST Map.empty [''token'' \<mapsto> ''123456''])
       (example_state [''pretix_auth_2fa_user'' \<mapsto> PInt 7, ''pretix_auth_2fa_time'' \<mapsto> PStr ''600''])))
     = Inr (True, su'))"
proof -
  let ?st = "example_state [''pretix_auth_2fa_user'' \<mapsto> PInt 7, ''pretix_auth_2fa_time'' \<mapsto> PStr ''600'']"
  let ?u = "example_user 7 ''a@pretix.example'' True True"
  let ?req = "example_request POST Map.empty [''token'' \<mapsto> ''123456'']"
  have tk: "submitted_token ?req = ''123456''" by (simp add: token_defs example_request_def)
  have sf: "second_factor example_env ?req ?u ?st = (True, ?st)"
    by (simp add: second_factor_def tk example_state_def example_env_def)
  have valid: "fst (second_factor example_env ?req ?u ?st)" by (simp add: sf)
  have uid: "session ?st ''pretix_auth_2fa_user'' \<noteq> None" by (simp add: example_state_def)
  have tm: "session ?st ''pretix_auth_2fa_time'' \<noteq> None" by (simp add: example_state_def)
  have frame: "login_keeps example_env ?u (session (snd (second_factor example_env ?req ?u ?st)))
                  [''pretix_auth_2fa_user'', ''pretix_auth_2fa_time'']"
    by (simp add: sf login_keeps_def example_env_def)
  have g: "Login2FAView_guard 1000 ?st = Inr (True, Some ?u)"
    by (simp add: Login2FAView_guard_def get_active_user_def py_int_def objects_get_def
          int_of_str_def strip_def is_space_def is_digit_def example_state_def example_db_def
          example_user_def)
  have s: "session ?st = [''pretix_auth_2fa_user'' \<mapsto> PInt 7, ''pretix_auth_2fa_time'' \<mapsto> PStr ''600'']"
    by (simp add: example_state_def)
  have later: "(1000::real) \<le> 2000" by simp
  show ?thesis
    using pending_cleared_on_success_only
            [of example_env ?req ?u ?st 1000 1000 "Some ?u" "''r''"]
          valid uid tm frame g s later
    by simp
qed

section \<open>Registration behind its feature flag\<close>

text \<open>
  Claim C7. With the registration flag off, every request to the registration view
  raises \<^verbatim>\<open>PermissionDenied\<close> (not a missing-page error) and leaves the state, the user
  table included, exactly as it was: the flag is read before the request, the form or
  the storage is looked at.
\<close>

theorem registration_disabled:
  assumes off: "\<not> PRETIX_REGISTRATION c"
  shows "register c now req st = (Inl (PermissionDenied ''Registration is disabled''), st)"
  using off by (simp add: register_def)

theorem registration_disabled_witness:
  "register (example_env\<lparr>PRETIX_REGISTRATION := False\<rparr>) 1000
      (example_request POST Map.empty [''email'' \<mapsto> ''n@pretix.example'', ''password'' \<mapsto> ''s''])
      (example_state Map.empty)
    = (Inl (PermissionDenied ''Registration is disabled''), example_state Map.empty)
   \<and> RegistrationForm (example_env\<lparr>PRETIX_REGISTRATION := False\<rparr>)
        (POST_params (example_request POST Map.empty
            [''email'' \<mapsto> ''n@pretix.example'', ''password'' \<mapsto> ''s'']))
        (db (example_state Map.empty))
       = Some \<lparr>reg_email = ''n@pretix.example'', reg_password = ''s'', reg_keep_logged_in = False\<rparr>"
proof -
  have off: "\<not> PRETIX_REGISTRATION (example_env\<lparr>PRETIX_REGISTRATION := False\<rparr>)" by simp
  have form: "RegistrationForm (example_env\<lparr>PRETIX_REGISTRATION := False\<rparr>)
        (POST_params (example_request POST Map.empty
            [''email'' \<mapsto> ''n@pretix.example'', ''password'' \<mapsto> ''s'']))
        (db (example_state Map.empty))
       = Some \<lparr>reg_email = ''n@pretix.example'', reg_password = ''s'', reg_keep_logged_in = False\<rparr>"
    by (simp add: example_defs)
  show ?thesis using registration_disabled [OF off] form by simp
qed

section \<open>Password reset: the cooldown\<close>

lemma Forgot_send_outbox:
  "outbox (snd (Forgot_send c req u st)) =
     (if mail_transport_ok c (forgot_mail c u) then outbox st @ [forgot_mail c u] else outbox st)"
  by (simp add: Forgot_send_def Forgot_get_def add_message_def Let_def)

lemma Forgot_send_redis: "redis (snd (Forgot_send c req u st)) = redis st"
  by (simp add: Forgot_send_def Forgot_get_def add_message_def Let_def)

lemma Forgot_send_returns: "\<exists>r. fst (Forgot_send c req u st) = Inr r"
  by (simp add: Forgot_send_def Forgot_get_def Let_def)

lemma Forgot_post_first:
  assumes "PasswordForgotForm c (POST_params req) (db st) = Some u"
    and "HAS_REDIS c" and "\<not> rc_exists t1 (pwreset_key u) (redis st)"
  shows "Forgot_post c t1 req st =
           Forgot_send c req u (st\<lparr>redis := rc_setex t1 (pwreset_key u) (3600 * 24) ''1'' (redis st)\<rparr>)"
  using assms by (simp add: Forgot_post_def)

lemma Forgot_post_repeated:
  assumes "PasswordForgotForm c (POST_params req) (db st) = Some u"
    and "HAS_REDIS c" and "rc_exists t (pwreset_key u) (redis st)"
  shows "Forgot_post c t req st =
           (Inr (Redirect ''control:auth.forgot''),
            add_message MsgError ''We already sent you an email in the last 24 hours.''
              (st\<lparr>db := log_action (OnUser (pk u))
                       ''pretix.control.auth.user.forgot_password.denied.repeated'' None [] (db st)\<rparr>))"
  using assms by (simp add: Forgot_post_def Let_def)

lemma Forgot_post_no_store:
  assumes "PasswordForgotForm c (POST_params req) (db st) = Some u" and "\<not> HAS_REDIS c"
  shows "Forgot_post c t req st = Forgot_send c req u st"
  using assms by (simp add: Forgot_post_def)

text \<open>
  Claim C6. Two reset requests for the same user, the first at \<open>t1\<close> and the second
  at \<open>t2\<close>. With the cooldown store present, no live record at \<open>t1\<close> and \<open>t2\<close>
  within 24 hours of \<open>t1\<close>: the first request stores the record until
  \<open>t1 + 86400\<close> and hands the mail to the transport; the second is redirected with
  the generic error, appends the \<open>denied.repeated\<close> log entry and sends nothing, so at
  most one mail is sent. With the store absent, both requests return a response (no
  exception) and each hands its mail to the transport.
\<close>

theorem forgot_cooldown:
  assumes form1: "PasswordForgotForm c (POST_params req) (db st) = Some u"
    and form2: "PasswordForgotForm c (POST_params req') (db (snd (Forgot_post c t1 req st))) = Some u'"
    and same: "pk u' = pk u"
  shows "(HAS_REDIS c \<and> \<not> rc_exists t1 (pwreset_key u) (redis st) \<and> t1 \<le> t2 \<and> t2 < t1 + 86400 \<longrightarrow>
            redis (snd (Forgot_post c t1 req st)) (pwreset_key u) = Some (''1'', t1 + 86400)
          \<and> outbox (snd (Forgot_post c t1 req st)) =
              (if mail_transport_ok c (forgot_mail c u) then outbox st @ [forgot_mail c u] else outbox st)
          \<and> Forgot_post c t2 req' (snd (Forgot_post c t1 req st)) =
              (Inr (Redirect ''control:auth.forgot''),
               add_message MsgError ''We already sent you an email in the last 24 hours.''
                 ((snd (Forgot_post c t1 req st))
                    \<lparr>db := log_action (OnUser (pk u'))
                             ''pretix.control.auth.user.forgot_password.denied.repeated'' None []
                             (db (snd (Forgot_post c t1 req st)))\<rparr>))
          \<and> outbox (snd (Forgot_post c t2 req' (snd (Forgot_post c t1 req st))))
              = outbox (snd (Forgot_post c t1 req st))
          \<and> length (outbox (snd (Forgot_post c t2 req' (snd (Forgot_post c t1 req st)))))
              \<le> length (outbox st) + 1)
       \<and> (\<not> HAS_REDIS c \<longrightarrow>
            Forgot_post c t1 req st = Forgot_send c req u st
          \<and> Forgot_post c t2 req' (snd (Forgot_post c t1 req st))
              = Forgot_send c req' u' (snd (Forgot_send c req u st))
          \<and> (\<exists>r. fst (Forgot_post c t1 req st) = Inr r)
          \<and> (\<exists>r. fst (Forgot_post c t2 req' (snd (Forgot_post c t1 req st))) = Inr r)
          \<and> outbox (snd (Forgot_post c t2 req' (snd (Forgot_post c t1 req st)))) =
              outbox st
              @ (if mail_transport_ok c (forgot_mail c u) then [forgot_mail c u] else [])
              @ (if mail_transport_ok c (forgot_mail c u') then [forgot_mail c u'] else []))"
proof (intro conjI impI)
  assume h: "HAS_REDIS c \<and> \<not> rc_exists t1 (pwreset_key u) (redis st) \<and> t1 \<le> t2 \<and> t2 < t1 + 86400"
  let ?st1 = "st\<lparr>redis := rc_setex t1 (pwreset_key u) (3600 * 24) ''1'' (redis st)\<rparr>"
  have r1: "Forgot_post c t1 req st = Forgot_send c req u ?st1"
    using form1 h by (simp add: Forgot_post_first)
  show rec: "redis (snd (Forgot_post c t1 req st)) (pwreset_key u) = Some (''1'', t1 + 86400)"
    by (simp add: r1 Forgot_send_redis rc_setex_def)
  show out1: "outbox (snd (Forgot_post c t1 req st)) =
              (if mail_transport_ok c (forgot_mail c u) then outbox st @ [forgot_mail c u] else outbox st)"
    by (simp add: r1 Forgot_send_outbox)
  have key: "pwreset_key u' = pwreset_key u" using same by (simp add: pwreset_key_def)
  have live: "rc_exists t2 (pwreset_key u') (redis (snd (Forgot_post c t1 req st)))"
    using rec h by (simp add: key rc_exists_def)
  show r2: "Forgot_post c t2 req' (snd (Forgot_post c t1 req st)) =
              (Inr (Redirect ''control:auth.forgot''),
               add_message MsgError ''We already sent you an email in the last 24 hours.''
                 ((snd (Forgot_post c t1 req st))
                    \<lparr>db := log_action (OnUser (pk u'))
                             ''pretix.control.auth.user.forgot_password.denied.repeated'' None []
                             (db (snd (Forgot_post c t1 req st)))\<rparr>))"
    using form2 h live by (rule_tac Forgot_post_repeated) simp_all
  show out2: "outbox (snd (Forgot_post c t2 req' (snd (Forgot_post c t1 req st))))
              = outbox (snd (Forgot_post c t1 req st))"
    by (simp add: r2 add_message_def)
  show "length (outbox (snd (Forgot_post c t2 req' (snd (Forgot_post c t1 req st)))))
              \<le> length (outbox st) + 1"
    by (simp add: out2 out1)
next
  assume off: "\<not> HAS_REDIS c"
  show r1: "Forgot_post c t1 req st = Forgot_send c req u st"
    using form1 off by (rule Forgot_post_no_store)
  show r2: "Forgot_post c t2 req' (snd (Forgot_post c t1 req st))
              = Forgot_send c req' u' (snd (Forgot_send c req u st))"
    using Forgot_post_no_store [OF form2 off, of t2] by (simp add: r1)
  show "\<exists>r. fst (Forgot_post c t1 req st) = Inr r"
    by (simp add: r1 Forgot_send_returns)
  show "\<exists>r. fst (Forgot_post c t2 req' (snd (Forgot_post c t1 req st))) = Inr r"
    by (simp add: r2 Forgot_send_returns)
  show "outbox (snd (Forgot_post c t2 req' (snd (Forgot_post c t1 req st)))) =
              outbox st
              @ (if mail_transport_ok c (forgot_mail c u) then [forgot_mail c u] else [])
              @ (if mail_transport_ok c (forgot_mail c u') then [forgot_mail c u'] else [])"
    by (simp add: r2 Forgot_send_outbox)
qed

lemma Forgot_post_users: "users (db (snd (Forgot_post c t req st))) = users (db st)"
  by (simp add: Forgot_post_def Forgot_send_def Forgot_get_def add_message_def log_action_def Let_def
        split: option.splits)

lemma example_forgot_form:
  "users d = users example_db \<Longrightarrow>
     PasswordForgotForm (example_env\<lparr>HAS_REDIS := b\<rparr>) [''email'' \<mapsto> ''c@pretix.example''] d
       = Some (example_user 9 ''c@pretix.example'' True False)"
  by (simp add: example_env_def example_db_def example_user_def)

theorem forgot_cooldown_witness:
  "fst (Forgot_post example_env 5000 (example_request POST Map.empty [''email'' \<mapsto> ''c@pretix.example''])
         (snd (Forgot_post example_env 1000
                 (example_request POST Map.empty [''email'' \<mapsto> ''c@pretix.example''])
                 (example_state Map.empty))))
     = Inr (Redirect ''control:auth.forgot'')
   \<and> outbox (snd (Forgot_post example_env 5000
         (example_request POST Map.empty [''email'' \<mapsto> ''c@pretix.example''])
         (snd (Forgot_post example_env 1000
                 (example_request POST Map.empty [''email'' \<mapsto> ''c@pretix.example''])
                 (example_state Map.empty)))))
     = [forgot_mail example_env (example_user 9 ''c@pretix.example'' True False)]
   \<and> outbox (snd (Forgot_post (example_env\<lparr>HAS_REDIS := False\<rparr>) 5000
         (example_request POST Map.empty [''email'' \<mapsto> ''c@pretix.example''])
         (snd (Forgot_post (example_env\<lparr>HAS_REDIS := False\<rparr>) 1000
                 (example_request POST Map.empty [''email'' \<mapsto> ''c@pretix.example''])
                 (example_state Map.empty)))))
     = [forgot_mail (example_env\<lparr>HAS_REDIS := False\<rparr>) (example_user 9 ''c@pretix.example'' True False),
        forgot_mail (example_env\<lparr>HAS_REDIS := False\<rparr>) (example_user 9 ''c@pretix.example'' True False)]"
proof -
  let ?req = "example_request POST Map.empty [''email'' \<mapsto> ''c@pretix.example'']"
  let ?st = "example_state Map.empty"
  let ?u = "example_user 9 ''c@pretix.example'' True False"
  let ?off = "example_env\<lparr>HAS_REDIS := False\<rparr>"
  have p: "POST_params ?req = [''email'' \<mapsto> ''c@pretix.example'']" by (simp add: example_request_def)
  have d: "users (db ?st) = users example_db" by (simp add: example_state_def)
  have on: "example_env\<lparr>HAS_REDIS := True\<rparr> = example_env" by (simp add: example_env_def)
  have f1: "PasswordForgotForm example_env (POST_params ?req) (db ?st) = Some ?u"
    using example_forgot_form [OF d, of True] by (simp add: p on)
  have f2: "PasswordForgotForm example_env (POST_params ?req)
              (db (snd (Forgot_post example_env 1000 ?req ?st))) = Some ?u"
    using example_forgot_form [of "db (snd (Forgot_post example_env 1000 ?req ?st))" True]
    by (simp add: p on Forgot_post_users d)
  have g1: "PasswordForgotForm ?off (POST_params ?req) (db ?st) = Some ?u"
    using example_forgot_form [OF d, of False] by (simp add: p)
  have g2: "PasswordForgotForm ?off (POST_params ?req)
              (db (snd (Forgot_post ?off 1000 ?req ?st))) = Some ?u"
    using example_forgot_form [of "db (snd (Forgot_post ?off 1000 ?req ?st))" False]
    by (simp add: p Forgot_post_users d)
  have store: "HAS_REDIS example_env" "\<not> HAS_REDIS ?off" by (simp_all add: example_env_def)
  have fresh: "\<not> rc_exists 1000 (pwreset_key ?u) (redis ?st)"
    by (simp add: rc_exists_def example_state_def)
  have ok: "mail_transport_ok example_env m" "mail_transport_ok ?off m" for m
    by (simp_all add: example_env_def)
  have window: "(1000::real) \<le> 5000 \<and> (5000::real) < 1000 + 86400" by simp
  have empty: "outbox ?st = []" by (simp add: example_state_def)
  note on_case = forgot_cooldown [OF f1 f2 refl, of 5000, THEN conjunct1, THEN mp,
                   OF conjI [OF store(1) conjI [OF fresh window]]]
  note off_case = forgot_cooldown [OF g1 g2 refl, of 5000, THEN conjunct2, THEN mp, OF store(2)]
  note first_out = on_case [THEN conjunct2, THEN conjunct1]
  note second = on_case [THEN conjunct2, THEN conjunct2, THEN conjunct1]
  note second_out = on_case [THEN conjunct2, THEN conjunct2, THEN conjunct2, THEN conjunct1]
  note both_out = off_case [THEN conjunct2, THEN conjunct2, THEN conjunct2, THEN conjunct2]
  have a: "fst (Forgot_post example_env 5000 ?req (snd (Forgot_post example_env 1000 ?req ?st)))
             = Inr (Redirect ''control:auth.forgot'')"
    by (simp add: second)
  have b: "outbox (snd (Forgot_post example_env 5000 ?req (snd (Forgot_post example_env 1000 ?req ?st))))
             = [forgot_mail example_env ?u]"
    by (simp add: second_out first_out ok empty)
  have c: "outbox (snd (Forgot_post ?off 5000 ?req (snd (Forgot_post ?off 1000 ?req ?st))))
             = [forgot_mail ?off ?u, forgot_mail ?off ?u]"
    by (simp add: both_out ok empty)
  show ?thesis using a b c by simp
qed

section \<open>Password reset: the two failures of the confirmation\<close>











section \<open>Invite acceptance and its transaction\<close>

lemma atomic_join_team:
  "atomic (join_team c iv m u) st =
     (if tx_fails c then (Some StorageError, st)
      else (None, st\<lparr>db := invite_delete iv
                           (log_action (OnTeam (team_pk (inv_team iv))) ''pretix.team.member.joined'' None
                              [(''email'', PStr (email u)), (''invite_email'', PStr (inv_email iv)),
                               (''user'', PInt (pk u))]
                              (members_add (team_pk (inv_team iv)) (pk m) (db st)))\<rparr>))"
  by (simp add: atomic_def join_team_def tx_run_def tx_fails_def)

lemma joined_db:
  "team_members (invite_delete iv (log_action ob a lu data (members_add t k d)))
     = (if (t, k) \<in> set (team_members d) then team_members d else team_members d @ [(t, k)])"
  "logs (invite_delete iv (log_action ob a lu data (members_add t k d)))
     = logs d @ [\<lparr>log_object = ob, log_action_type = a, log_user = lu, log_data = data\<rparr>]"
  "invites (invite_delete iv (log_action ob a lu data (members_add t k d)))
     = filter (\<lambda>i. inv_pk i \<noteq> inv_pk iv) (invites d)"
  "users (invite_delete iv (log_action ob a lu data (members_add t k d))) = users d"
  by (simp_all add: invite_delete_def log_action_def members_add_def)

lemma create_and_login_result:
  assumes "authenticate c (reg_email r) (reg_password r)
             (snd (create_user (reg_email r) (reg_password r) (LANGUAGE_CODE req)
                     (case req_timezone req of Some z \<Rightarrow> z | None \<Rightarrow> TIME_ZONE c) (db st))) = Some u"
  shows "create_and_login c now req r st =
           (Inr u,
            st\<lparr>db := (db st)\<lparr>users := users (db st) @ [new_user c req r (db st)],
                               user_seq := user_seq (db st) + 1,
                               logs := logs (db st) @ [created_entry u]\<rparr>,
                 session := (auth_login c (session st) u)
                    (''pretix_auth_login_time'' \<mapsto> PInt (int_of_float now),
                     ''pretix_auth_long_session'' \<mapsto> long_session c (reg_keep_logged_in r)),
                 request_user := Some u\<rparr>)"
  using assms
  by (simp add: create_and_login_def create_user_def Let_def log_action_def do_auth_login_def
        session_set_def new_user_def created_entry_def)

lemma objects_get_member: "objects_get rows = Inr r \<Longrightarrow> r \<in> set rows"
  by (auto simp: objects_get_def split: list.splits)

lemma invite_found_member:
  "TeamInvite_objects_get tok d = Inr iv \<Longrightarrow> iv \<in> set (invites d)"
  by (auto simp: TeamInvite_objects_get_def dest: objects_get_member)

lemma invite_authenticated:
  assumes found: "TeamInvite_objects_get tok (db st) = Inr iv"
    and ru: "request_user st = Some ru"
    and fresh: "\<not> members_exists (team_pk (inv_team iv)) (pk ru) (db st)"
  shows "invite c now req tok st =
     (if tx_fails c then (Inl StorageError, st)
      else (Inr (Redirect ''control:index''),
            add_message MsgSuccess
              (''You are now part of the team '' @ dquote @ team_name (inv_team iv) @ dquote @ ''.'')
              (st\<lparr>db := invite_delete iv
                   (log_action (OnTeam (team_pk (inv_team iv))) ''pretix.team.member.joined'' None
                      [(''email'', PStr (email ru)), (''invite_email'', PStr (inv_email iv)),
                       (''user'', PInt (pk ru))]
                      (members_add (team_pk (inv_team iv)) (pk ru) (db st)))\<rparr>)))"
  using assms by (simp add: invite_def atomic_join_team)

lemma invite_anonymous:
  assumes found: "TeamInvite_objects_get tok (db st) = Inr iv"
    and anon: "request_user st = None"
    and post: "req_method req = POST"
    and form: "RegistrationForm c (POST_params req) (db st) = Some r"
    and login: "create_and_login c now req r st = (Inr u, st1)"
  shows "invite c now req tok st =
     (if tx_fails c then (Inl StorageError, st1)
      else (Inr (Redirect ''control:index''),
            add_message MsgSuccess
              (''Welcome to pretix! You are now part of the team '' @ dquote @ team_name (inv_team iv)
                 @ dquote @ ''.'')
              (st1\<lparr>db := invite_delete iv
                   (log_action (OnTeam (team_pk (inv_team iv))) ''pretix.team.member.joined'' None
                      [(''email'', PStr (email u)), (''invite_email'', PStr (inv_email iv)),
                       (''user'', PInt (pk u))]
                      (members_add (team_pk (inv_team iv)) (pk u) (db st1)))\<rparr>)))"
  using assms by (simp add: invite_def atomic_join_team)

lemma example_invite_found:
  "TeamInvite_objects_get ''abc'' (db (example_state s\<lparr>request_user := ru\<rparr>)) = Inr example_invite"
  "TeamInvite_objects_get ''abc'' (db (example_state s)) = Inr example_invite"
  by (simp_all add: TeamInvite_objects_get_def objects_get_def example_state_def example_db_def
        example_invite_def)

lemma example_registration:
  "RegistrationForm (example_env\<lparr>tx_fault := f\<rparr>)
      (POST_params (example_request POST Map.empty
                      [''email'' \<mapsto> ''n@pretix.example'', ''password'' \<mapsto> ''s'']))
      (db (example_state s))
     = Some \<lparr>reg_email = ''n@pretix.example'', reg_password = ''s'', reg_keep_logged_in = False\<rparr>"
  by (simp add: example_defs)

lemma example_authenticate:
  "authenticate (example_env\<lparr>tx_fault := f\<rparr>) ''n@pretix.example'' ''s''
      (snd (create_user ''n@pretix.example'' ''s''
              (LANGUAGE_CODE (example_request m g p))
              (case req_timezone (example_request m g p) of Some z \<Rightarrow> z
               | None \<Rightarrow> TIME_ZONE (example_env\<lparr>tx_fault := f\<rparr>))
              (db (example_state s))))
     = Some example_new_user"
  by (simp add: example_defs create_user_def example_new_user_def Let_def)

text \<open>
  Claim C5. Accepting an invite that the token finds. For a logged-in visitor who is not
  yet a member, and for an anonymous visitor whose registration form is valid and whose
  new credentials authenticate: if the storage fails under any of the three statements
  of the transaction, the view raises and the team's members, the join entry of the log
  and the invite are as if nothing had been attempted (for the logged-in visitor the
  whole database is unchanged; for the registering visitor the log has gained only the
  entry of the user's creation). If none fails, the visitor is a member, the join entry
  is the last of the log and the invite is gone.
\<close>

theorem invite_acceptance_atomic:
  assumes found: "TeamInvite_objects_get tok (db st) = Inr iv"
  shows "(\<forall>ru. request_user st = Some ru
              \<and> \<not> members_exists (team_pk (inv_team iv)) (pk ru) (db st) \<longrightarrow>
           (if tx_fails c
            then fst (invite c now req tok st) = Inl StorageError
                 \<and> db (snd (invite c now req tok st)) = db st
            else fst (invite c now req tok st) = Inr (Redirect ''control:index'')
                 \<and> (team_pk (inv_team iv), pk ru) \<in> set (team_members (db (snd (invite c now req tok st))))
                 \<and> logs (db (snd (invite c now req tok st))) = logs (db st) @ [joined_entry iv ru]
                 \<and> iv \<notin> set (invites (db (snd (invite c now req tok st))))))
       \<and> (\<forall>r u. request_user st = None \<and> req_method req = POST
              \<and> RegistrationForm c (POST_params req) (db st) = Some r
              \<and> authenticate c (reg_email r) (reg_password r)
                   (snd (create_user (reg_email r) (reg_password r) (LANGUAGE_CODE req)
                          (case req_timezone req of Some z \<Rightarrow> z | None \<Rightarrow> TIME_ZONE c) (db st)))
                  = Some u \<longrightarrow>
           (if tx_fails c
            then fst (invite c now req tok st) = Inl StorageError
                 \<and> team_members (db (snd (invite c now req tok st))) = team_members (db st)
                 \<and> logs (db (snd (invite c now req tok st))) = logs (db st) @ [created_entry u]
                 \<and> invites (db (snd (invite c now req tok st))) = invites (db st)
            else fst (invite c now req tok st) = Inr (Redirect ''control:index'')
                 \<and> (team_pk (inv_team iv), pk u) \<in> set (team_members (db (snd (invite c now req tok st))))
                 \<and> logs (db (snd (invite c now req tok st)))
                     = logs (db st) @ [created_entry u, joined_entry iv u]
                 \<and> iv \<notin> set (invites (db (snd (invite c now req tok st))))))"
proof (intro conjI allI impI)
  fix ru
  assume h: "request_user st = Some ru \<and> \<not> members_exists (team_pk (inv_team iv)) (pk ru) (db st)"
  then have r: "request_user st = Some ru"
    and f: "\<not> members_exists (team_pk (inv_team iv)) (pk ru) (db st)" by simp_all
  show "if tx_fails c
        then fst (invite c now req tok st) = Inl StorageError
             \<and> db (snd (invite c now req tok st)) = db st
        else fst (invite c now req tok st) = Inr (Redirect ''control:index'')
             \<and> (team_pk (inv_team iv), pk ru) \<in> set (team_members (db (snd (invite c now req tok st))))
             \<and> logs (db (snd (invite c now req tok st))) = logs (db st) @ [joined_entry iv ru]
             \<and> iv \<notin> set (invites (db (snd (invite c now req tok st))))"
    by (simp add: invite_authenticated [OF found r f] add_message_def joined_db joined_entry_def)
next
  fix r u
  assume h: "request_user st = None \<and> req_method req = POST
              \<and> RegistrationForm c (POST_params req) (db st) = Some r
              \<and> authenticate c (reg_email r) (reg_password r)
                   (snd (create_user (reg_email r) (reg_password r) (LANGUAGE_CODE req)
                          (case req_timezone req of Some z \<Rightarrow> z | None \<Rightarrow> TIME_ZONE c) (db st)))
                  = Some u"
  then have anon: "request_user st = None" and post: "req_method req = POST"
    and form: "RegistrationForm c (POST_params req) (db st) = Some r"
    and auth: "authenticate c (reg_email r) (reg_password r)
                   (snd (create_user (reg_email r) (reg_password r) (LANGUAGE_CODE req)
                          (case req_timezone req of Some z \<Rightarrow> z | None \<Rightarrow> TIME_ZONE c) (db st)))
                  = Some u" by simp_all
  note login = create_and_login_result [OF auth, of now]
  show "if tx_fails c
        then fst (invite c now req tok st) = Inl StorageError
             \<and> team_members (db (snd (invite c now req tok st))) = team_members (db st)
             \<and> logs (db (snd (invite c now req tok st))) = logs (db st) @ [created_entry u]
             \<and> invites (db (snd (invite c now req tok st))) = invites (db st)
        else fst (invite c now req tok st) = Inr (Redirect ''control:index'')
             \<and> (team_pk (inv_team iv), pk u) \<in> set (team_members (db (snd (invite c now req tok st))))
             \<and> logs (db (snd (invite c now req tok st)))
                 = logs (db st) @ [created_entry u, joined_entry iv u]
             \<and> iv \<notin> set (invites (db (snd (invite c now req tok st))))"
    by (simp add: invite_anonymous [OF found anon post form login] add_message_def joined_db
          joined_entry_def)
qed

theorem invite_acceptance_atomic_witness:
  "fst (invite (example_env\<lparr>tx_fault := (\<lambda>s. s = TxInviteDelete)\<rparr>) 1000
          (example_request GET Map.empty Map.empty) ''abc''
          (example_state Map.empty
             \<lparr>request_user := Some (example_user 9 ''c@pretix.example'' True False)\<rparr>))
     = Inl StorageError
   \<and> db (snd (invite (example_env\<lparr>tx_fault := (\<lambda>s. s = TxInviteDelete)\<rparr>) 1000
          (example_request GET Map.empty Map.empty) ''abc''
          (example_state Map.empty
             \<lparr>request_user := Some (example_user 9 ''c@pretix.example'' True False)\<rparr>)))
     = example_db
   \<and> fst (invite (example_env\<lparr>tx_fault := (\<lambda>s. False)\<rparr>) 1000
          (example_request POST Map.empty [''email'' \<mapsto> ''n@pretix.example'', ''password'' \<mapsto> ''s''])
          ''abc'' (example_state Map.empty))
     = Inr (Redirect ''control:index'')
   \<and> (3, 10) \<in> set (team_members (db (snd (invite (example_env\<lparr>tx_fault := (\<lambda>s. False)\<rparr>) 1000
          (example_request POST Map.empty [''email'' \<mapsto> ''n@pretix.example'', ''password'' \<mapsto> ''s''])
          ''abc'' (example_state Map.empty)))))
   \<and> logs (db (snd (invite (example_env\<lparr>tx_fault := (\<lambda>s. False)\<rparr>) 1000
          (example_request POST Map.empty [''email'' \<mapsto> ''n@pretix.example'', ''password'' \<mapsto> ''s''])
          ''abc'' (example_state Map.empty))))
     = [created_entry example_new_user, joined_entry example_invite example_new_user]
   \<and> example_invite \<notin> set (invites (db (snd (invite (example_env\<lparr>tx_fault := (\<lambda>s. False)\<rparr>) 1000
          (example_request POST Map.empty [''email'' \<mapsto> ''n@pretix.example'', ''password'' \<mapsto> ''s''])
          ''abc'' (example_state Map.empty)))))"
proof -
  let ?u9 = "example_user 9 ''c@pretix.example'' True False"
  let ?bad = "example_env\<lparr>tx_fault := (\<lambda>s. s = TxInviteDelete)\<rparr>"
  let ?good = "example_env\<lparr>tx_fault := (\<lambda>s. False)\<rparr>"
  let ?st9 = "example_state Map.empty\<lparr>request_user := Some ?u9\<rparr>"
  let ?st = "example_state Map.empty"
  let ?get = "example_request GET Map.empty Map.empty"
  let ?post = "example_request POST Map.empty [''email'' \<mapsto> ''n@pretix.example'', ''password'' \<mapsto> ''s'']"
  let ?r = "\<lparr>reg_email = ''n@pretix.example'', reg_password = ''s'', reg_keep_logged_in = False\<rparr>"
  have fails: "tx_fails ?bad" "\<not> tx_fails ?good" by (simp_all add: tx_fails_def)
  have h9: "request_user ?st9 = Some ?u9
            \<and> \<not> members_exists (team_pk (inv_team example_invite)) (pk ?u9) (db ?st9)"
    by (simp add: members_exists_def example_state_def example_db_def)
  have hn: "request_user ?st = None \<and> req_method ?post = POST
            \<and> RegistrationForm ?good (POST_params ?post) (db ?st) = Some ?r
            \<and> authenticate ?good (reg_email ?r) (reg_password ?r)
                 (snd (create_user (reg_email ?r) (reg_password ?r) (LANGUAGE_CODE ?post)
                        (case req_timezone ?post of Some z \<Rightarrow> z | None \<Rightarrow> TIME_ZONE ?good) (db ?st)))
                = Some example_new_user"
    using example_registration [of "\<lambda>s. False" Map.empty]
          example_authenticate [of "\<lambda>s. False" POST Map.empty
             "[''email'' \<mapsto> ''n@pretix.example'', ''password'' \<mapsto> ''s'']" Map.empty]
    by (simp add: example_state_def example_request_def)
  have found9: "TeamInvite_objects_get ''abc'' (db ?st9) = Inr example_invite"
    by (rule example_invite_found)
  have found: "TeamInvite_objects_get ''abc'' (db ?st) = Inr example_invite"
    by (rule example_invite_found)
  note a = invite_acceptance_atomic [OF found9, where c = ?bad and now = 1000 and req = ?get,
             THEN conjunct1, THEN spec, THEN mp, OF h9]
  note b = invite_acceptance_atomic [OF found, where c = ?good and now = 1000 and req = ?post,
             THEN conjunct2, THEN spec, THEN spec, THEN mp, OF hn]
  have d: "db ?st9 = example_db" "logs (db ?st) = []" by (simp_all add: example_state_def example_db_def)
  have k: "team_pk (inv_team example_invite) = 3" "pk example_new_user = 10"
    by (simp_all add: example_invite_def example_new_user_def)
  show ?thesis using a b fails by (simp add: d k)
qed



end
